theory Spec2Isabelle
  imports Main
begin

section \<open>Job action handlers of Zowe Explorer (job/actions.ts)\<close>

text \<open>
  The handlers of \<^verbatim>\<open>packages/zowe-explorer/src/job/actions.ts\<close> orchestrate calls to
  collaborators they do not own: the VS Code window, the profile resolver, the JES API
  facade, the command-issuing facility and the jobs tree provider. The embedding makes
  each handler a function from the behaviour of those collaborators (an environment) to
  the sequence of calls the handler makes and the way it ends.
\<close>

subsection \<open>Values\<close>

text \<open>
  A thrown value. The handlers read \<^verbatim>\<open>error.message\<close> of what they catch, so a thrown
  value is an error object carrying a message. \<open>TypeError\<close> is what the JavaScript
  runtime raises when a property of \<^verbatim>\<open>undefined\<close> or \<^verbatim>\<open>null\<close> is read or written.
\<close>

datatype error = TypeError string | Failure string

fun message :: "error \<Rightarrow> string" where
  "message (TypeError m) = m"
| "message (Failure m) = m"

text \<open>
  A synchronous call either throws or returns; a returned promise is later rejected or
  fulfilled. An asynchronous collaborator has a result of type \<open>'a promise outcome\<close>.
\<close>

datatype 'a outcome = Throws error | Returns 'a

datatype 'a promise = Rejected error | Fulfilled 'a

type_synonym profile = string
type_synonym session = string
type_synonym uri = string

text \<open>The two fields of \<^verbatim>\<open>IJob\<close> that the handlers read.\<close>

record ijob =
  jobid :: string
  jobname :: string

text \<open>
  A tree node (\<^verbatim>\<open>IZoweJobTreeNode\<close>). The field \<open>job\<close> is optional in the interface
  (\<^verbatim>\<open>undefined\<close> and \<^verbatim>\<open>null\<close> are both \<open>None\<close>); \<open>owner\<close>, \<open>prefix\<close> and \<open>searchId\<close>
  are the mutable fields the handlers assign, \<open>None\<close> being \<^verbatim>\<open>undefined\<close>. The
  accessors \<^verbatim>\<open>getProfile()\<close> and \<^verbatim>\<open>getSession()\<close> read \<open>profile\<close> and \<open>session\<close>.
  The label is a string, as \<^verbatim>\<open>focusOnJob\<close> takes it to be when it calls \<^verbatim>\<open>label.trim()\<close>.
  A folder URI of the open dialog stands for its \<^verbatim>\<open>fsPath\<close>.
\<close>

record node =
  label :: string
  job :: "ijob option"
  owner :: "string option"
  prefix :: "string option"
  searchId :: "string option"
  profile :: profile
  session :: session

definition getProfile :: "node \<Rightarrow> profile" where
  "getProfile n = profile n"

definition getSession :: "node \<Rightarrow> session" where
  "getSession n = session n"

text \<open>
  Modelled from the spec: the setters of \<^verbatim>\<open>owner\<close> and \<^verbatim>\<open>prefix\<close> in class \<^verbatim>\<open>Job\<close>
  (\<^verbatim>\<open>ZoweJobNode.ts\<close>), which the comment at line 200 refers to, are not among the
  sources. The spec has \<^verbatim>\<open>setOwner\<close> and \<^verbatim>\<open>setPrefix\<close> assign the value "directly onto
  the job node's mutable field", with "no validation of the entered value": the field
  takes the value assigned, whatever it is.
\<close>

definition directOwner :: "node \<Rightarrow> string option \<Rightarrow> node" where
  "directOwner n v = n\<lparr>owner := v\<rparr>"

text \<open>
  Modelled from the spec: the setter of \<^verbatim>\<open>prefix\<close> in class \<^verbatim>\<open>Job\<close>, missing like the one
  of \<^verbatim>\<open>owner\<close>, as the same direct assignment.
\<close>

definition directPrefix :: "node \<Rightarrow> string option \<Rightarrow> node" where
  "directPrefix n v = n\<lparr>prefix := v\<rparr>"

record treeView =
  selection :: "node list"

record document =
  language :: string
  content :: string

datatype ValidProfileEnum = UNVERIFIED | VALID | INVALID

text \<open>The argument of \<^verbatim>\<open>vscode.window.showTextDocument\<close>: a URI or an opened document.\<close>

datatype shown = ByUri uri | ByDocument document

subsection \<open>Observable events\<close>

text \<open>
  One event per collaborator call, in the order the calls are made, one per assignment to
  a field of a node, and \<open>Raised e\<close> at the point where an error \<open>e\<close> is raised inside
  the handler (a collaborator throws, an awaited promise is rejected, or the runtime
  raises a \<open>TypeError\<close>).
\<close>

datatype event =
    ShowOpenDialog string
  | GetJesApi profile
  | DownloadSpoolContent string string string
  | GetJclForJob profile "ijob option"
  | ErrorHandling error "string option" string
  | LoadNamedProfile string
  | CheckCurrentProfile profile
  | TreeCheckCurrentProfile node
  | ShowTextDocument shown
  | OpenTextDocument string string
  | RefreshElement "node option"
  | AddSession string
  | AssignSearchId string string
  | AssignOwner string "string option"
  | AssignPrefix string "string option"
  | GetChildren node
  | GetTreeView
  | SetItem treeView node
  | ShowInputBox string
  | IssueSimple session string
  | ShowInformationMessage string
  | Delete node
  | ExecuteCommand string
  | Raised error

subsection \<open>The collaborators\<close>

text \<open>
  None of the collaborators is defined in this module; their behaviour is a parameter.
  \<open>checkCurrentProfile\<close> gives the value that \<^verbatim>\<open>Profiles.validProfile\<close> holds once the
  returned promise is fulfilled; \<open>treeCheckCurrentProfile\<close>
  (\<^verbatim>\<open>jobsProvider.checkCurrentProfile\<close>, whose promise \<^verbatim>\<open>refreshJobsServer\<close> does not
  await) gives the value it holds when the call returns. \<open>addSession\<close> takes the
  provider's \<^verbatim>\<open>mSessionNodes\<close> and gives the list it leaves there.
  \<open>downloadSpoolContent\<close> and \<open>getJclForJob\<close> are the methods of the object that
  \<open>getJesApi\<close> returns for a profile. \<open>localize\<close>, \<open>toUniqueJobFileUri\<close> and
  \<open>numberToString\<close> (\<^verbatim>\<open>Number.prototype.toString\<close>) are pure. \<open>ownerSetter\<close> and
  \<open>prefixSetter\<close> are what the assignments \<^verbatim>\<open>job.owner = v\<close> and \<^verbatim>\<open>job.prefix = v\<close> do
  to the node: that is decided by the class of the node, not by this module.
\<close>

record env =
  localize :: "string \<Rightarrow> string \<Rightarrow> string"
  toUniqueJobFileUri :: "string \<Rightarrow> string \<Rightarrow> string \<Rightarrow> uri"
  numberToString :: "int \<Rightarrow> string"
  showOpenDialog :: "string \<Rightarrow> uri list option promise outcome"
  showInputBox :: "string \<Rightarrow> string option promise outcome"
  showTextDocument :: "shown \<Rightarrow> unit promise outcome"
  openTextDocument :: "string \<Rightarrow> string \<Rightarrow> document promise outcome"
  showInformationMessage :: "string \<Rightarrow> unit promise outcome"
  executeCommand :: "string \<Rightarrow> unit promise outcome"
  loadNamedProfile :: "string \<Rightarrow> profile outcome"
  checkCurrentProfile :: "profile \<Rightarrow> ValidProfileEnum promise outcome"
  getJesApi :: "profile \<Rightarrow> unit outcome"
  downloadSpoolContent :: "profile \<Rightarrow> string \<Rightarrow> string \<Rightarrow> string \<Rightarrow> unit promise outcome"
  getJclForJob :: "profile \<Rightarrow> ijob option \<Rightarrow> string promise outcome"
  issueSimple :: "session \<Rightarrow> string \<Rightarrow> string promise outcome"
  treeCheckCurrentProfile :: "node \<Rightarrow> ValidProfileEnum outcome"
  refreshElement :: "node option \<Rightarrow> unit outcome"
  addSession :: "string \<Rightarrow> node list \<Rightarrow> node list promise outcome"
  getChildren :: "node \<Rightarrow> node list promise outcome"
  getTreeView :: "treeView outcome"
  setItem :: "treeView \<Rightarrow> node \<Rightarrow> unit outcome"
  delete :: "node \<Rightarrow> unit promise outcome"
  ownerSetter :: "node \<Rightarrow> string option \<Rightarrow> node"
  prefixSetter :: "node \<Rightarrow> string option \<Rightarrow> node"

subsection \<open>Computations: a trace of events and an end\<close>

text \<open>
  A computation has run to its end: it is the events it produced and either the error
  that left it (\<open>Inl\<close>) or its value (\<open>Inr\<close>).
\<close>

type_synonym 'a comp = "event list \<times> (error + 'a)"

definition ret :: "'a \<Rightarrow> 'a comp" where
  "ret v = ([], Inr v)"

definition raise :: "error \<Rightarrow> 'a comp" where
  "raise e = ([Raised e], Inl e)"

definition andThen :: "'a comp \<Rightarrow> ('a \<Rightarrow> 'b comp) \<Rightarrow> 'b comp" where
  "andThen m f =
     (case m of
        (t, Inl e) \<Rightarrow> (t, Inl e)
      | (t, Inr v) \<Rightarrow> (case f v of (t', r) \<Rightarrow> (t @ t', r)))"

text \<open>A synchronous call, or an asynchronous one whose promise is dropped.\<close>

definition call :: "event \<Rightarrow> 'a outcome \<Rightarrow> 'a comp" where
  "call ev r =
     (case r of
        Throws e \<Rightarrow> ([ev, Raised e], Inl e)
      | Returns v \<Rightarrow> ([ev], Inr v))"

definition await :: "'a promise \<Rightarrow> 'a comp" where
  "await p = (case p of Rejected e \<Rightarrow> raise e | Fulfilled v \<Rightarrow> ret v)"

definition callAwait :: "event \<Rightarrow> 'a promise outcome \<Rightarrow> 'a comp" where
  "callAwait ev r = andThen (call ev r) await"

definition callDrop :: "event \<Rightarrow> 'a promise outcome \<Rightarrow> unit comp" where
  "callDrop ev r = andThen (call ev r) (\<lambda>_. ret ())"

text \<open>\<^verbatim>\<open>try { m } catch (error) { h error }\<close>, the statements after it not included.\<close>

definition tryCatch :: "'a comp \<Rightarrow> (error \<Rightarrow> 'a comp) \<Rightarrow> 'a comp" where
  "tryCatch m h =
     (case m of
        (t, Inl e) \<Rightarrow> (case h e of (t', r) \<Rightarrow> (t @ t', r))
      | (t, Inr v) \<Rightarrow> (t, Inr v))"

text \<open>
  \<^verbatim>\<open>try { m } catch (error) { h error; return; } k\<close>: the handler \<open>h\<close> ends the function,
  and \<open>k\<close> runs outside the \<^verbatim>\<open>try\<close>, so what it raises is not caught.
\<close>

definition tryCatchReturn :: "'a comp \<Rightarrow> (error \<Rightarrow> 'b comp) \<Rightarrow> ('a \<Rightarrow> 'b comp) \<Rightarrow> 'b comp" where
  "tryCatchReturn m h k =
     (case m of
        (t, Inl e) \<Rightarrow> (case h e of (t', r) \<Rightarrow> (t @ t', r))
      | (t, Inr v) \<Rightarrow> (case k v of (t', r) \<Rightarrow> (t @ t', r)))"

text \<open>
  Modelled from the spec: \<^verbatim>\<open>errorHandling\<close> of \<^verbatim>\<open>../utils/ProfilesUtils\<close> is not among
  the sources. The spec gives it as \<^verbatim>\<open>errorHandling(error, contextLabel|null, message)\<close>,
  fire-and-forget surfacing to the user or the log: the call is recorded and returns.
\<close>

definition errorHandling :: "error \<Rightarrow> string option \<Rightarrow> string \<Rightarrow> unit comp" where
  "errorHandling e lbl msg = ([ErrorHandling e lbl msg], Inr ())"

subsection \<open>Strings\<close>

text \<open>
  \<^verbatim>\<open>String.prototype.trim\<close> on strings of code points below 256: the white space and
  line terminators of ECMAScript in that range are TAB, LF, VT, FF, CR, SP and NBSP.
\<close>

definition isWhiteSpace :: "char \<Rightarrow> bool" where
  "isWhiteSpace c = ((of_char c :: nat) \<in> {9, 10, 11, 12, 13, 32, 160})"

definition trim :: "string \<Rightarrow> string" where
  "trim s = rev (dropWhile isWhiteSpace (rev (dropWhile isWhiteSpace s)))"

text \<open>\<^verbatim>\<open>Array.prototype.toString\<close> of an array of strings: the elements joined by commas.\<close>

fun arrayToString :: "string list \<Rightarrow> string" where
  "arrayToString [] = []"
| "arrayToString [x] = x"
| "arrayToString (x # y # ys) = x @ '','' @ arrayToString (y # ys)"

subsection \<open>The handlers\<close>

text \<open>\<^verbatim>\<open>downloadSpool(job)\<close>, lines 35-53.\<close>

definition downloadSpool :: "env \<Rightarrow> node \<Rightarrow> unit comp" where
  "downloadSpool E jb =
     tryCatch
       (andThen (callAwait (ShowOpenDialog (localize E ''downloadSpool.select'' ''Select''))
                   (showOpenDialog E (localize E ''downloadSpool.select'' ''Select'')))
          (\<lambda>dirUri. case dirUri of
               None \<Rightarrow> ret ()
             | Some uris \<Rightarrow>
                 andThen (call (GetJesApi (getProfile jb)) (getJesApi E (getProfile jb)))
                   (\<lambda>_. case job jb of
                        None \<Rightarrow> raise (TypeError ''Cannot read properties of undefined (reading 'jobid')'')
                      | Some j \<Rightarrow>
                          (case uris of
                             [] \<Rightarrow> raise (TypeError ''Cannot read properties of undefined (reading 'fsPath')'')
                           | d # _ \<Rightarrow>
                               callDrop (DownloadSpoolContent (jobid j) (jobname j) d)
                                 (downloadSpoolContent E (getProfile jb) (jobid j) (jobname j) d)))))
       (\<lambda>error. errorHandling error None (message error))"

text \<open>\<^verbatim>\<open>getSpoolContent(session, spool, refreshTimestamp)\<close>, lines 62-81.\<close>

definition getSpoolContent :: "env \<Rightarrow> string \<Rightarrow> string \<Rightarrow> int \<Rightarrow> unit comp" where
  "getSpoolContent E sess spool refreshTimestamp =
     tryCatchReturn (call (LoadNamedProfile sess) (loadNamedProfile E sess))
       (\<lambda>error. errorHandling error (Some sess) (message error))
       (\<lambda>zosmfProfile.
          andThen (callAwait (CheckCurrentProfile zosmfProfile) (checkCurrentProfile E zosmfProfile))
            (\<lambda>validProfile.
               if validProfile = VALID \<or> validProfile = UNVERIFIED
               then tryCatch
                      (callAwait
                         (ShowTextDocument
                            (ByUri (toUniqueJobFileUri E sess spool (numberToString E refreshTimestamp))))
                         (showTextDocument E
                            (ByUri (toUniqueJobFileUri E sess spool (numberToString E refreshTimestamp)))))
                      (\<lambda>error. errorHandling error (Some sess) (message error))
               else ret ()))"

text \<open>\<^verbatim>\<open>refreshJobsServer(node, jobsProvider)\<close>, lines 89-97.\<close>

definition refreshJobsServer :: "env \<Rightarrow> node \<Rightarrow> unit comp" where
  "refreshJobsServer E nd =
     andThen (call (TreeCheckCurrentProfile nd) (treeCheckCurrentProfile E nd))
       (\<lambda>validProfile.
          if validProfile = VALID \<or> validProfile = UNVERIFIED
          then call (RefreshElement (Some nd)) (refreshElement E (Some nd))
          else ret ())"

text \<open>\<^verbatim>\<open>refreshJob(job, jobsProvider)\<close>, lines 105-107.\<close>

definition refreshJob :: "env \<Rightarrow> node \<Rightarrow> unit comp" where
  "refreshJob E jb = call (RefreshElement (Some jb)) (refreshElement E (Some jb))"

text \<open>\<^verbatim>\<open>downloadJcl(job)\<close>, lines 114-122.\<close>

definition downloadJcl :: "env \<Rightarrow> node \<Rightarrow> unit comp" where
  "downloadJcl E jb =
     tryCatch
       (andThen (call (GetJesApi (getProfile jb)) (getJesApi E (getProfile jb)))
          (\<lambda>_. andThen (callAwait (GetJclForJob (getProfile jb) (job jb))
                          (getJclForJob E (getProfile jb) (job jb)))
             (\<lambda>jobJcl. andThen (callAwait (OpenTextDocument ''jcl'' jobJcl)
                                  (openTextDocument E ''jcl'' jobJcl))
                (\<lambda>jclDoc. callAwait (ShowTextDocument (ByDocument jclDoc))
                             (showTextDocument E (ByDocument jclDoc))))))
       (\<lambda>error. errorHandling error None (message error))"

text \<open>
  The search of line 151, \<^verbatim>\<open>jobs.find((jobNode) => jobNode.job.jobid === jobId)\<close>: the
  callback raises a \<open>TypeError\<close> at a node without a job that the search reaches.
\<close>

fun findJob :: "string \<Rightarrow> node list \<Rightarrow> error + node option" where
  "findJob jobId [] = Inr None"
| "findJob jobId (n # ns) =
     (case job n of
        None \<Rightarrow> Inl (TypeError ''Cannot read properties of undefined (reading 'jobid')'')
      | Some j \<Rightarrow> if jobid j = jobId then Inr (Some n) else findJob jobId ns)"

definition findJobComp :: "string \<Rightarrow> node list \<Rightarrow> node option comp" where
  "findJobComp jobId ns = (case findJob jobId ns of Inl e \<Rightarrow> raise e | Inr r \<Rightarrow> ret r)"

text \<open>
  Lines 143-154 of \<^verbatim>\<open>focusOnJob\<close>, from the session node the first part has found
  (\<open>None\<close> when the search after \<^verbatim>\<open>addSession\<close> gave \<^verbatim>\<open>undefined\<close>).
\<close>

definition focusOnSessionNode :: "env \<Rightarrow> node option \<Rightarrow> string \<Rightarrow> unit comp" where
  "focusOnSessionNode E sessionNode jobId =
     tryCatchReturn (call (RefreshElement sessionNode) (refreshElement E sessionNode))
       (\<lambda>error. errorHandling error None (message error))
       (\<lambda>_. case sessionNode of
            None \<Rightarrow> raise (TypeError ''Cannot set properties of undefined (setting 'searchId')'')
          | Some sn \<Rightarrow>
              andThen ([AssignSearchId (label sn) jobId], Inr ())
                (\<lambda>_. andThen (callAwait (GetChildren (sn\<lparr>searchId := Some jobId\<rparr>))
                                (getChildren E (sn\<lparr>searchId := Some jobId\<rparr>)))
                   (\<lambda>jobs. andThen (findJobComp jobId jobs)
                      (\<lambda>found. case found of
                           None \<Rightarrow> ret ()
                         | Some jb \<Rightarrow>
                             andThen (call GetTreeView (getTreeView E))
                               (\<lambda>tv. call (SetItem tv jb) (setItem E tv jb))))))"

text \<open>\<^verbatim>\<open>focusOnJob(jobsProvider, sessionName, jobId)\<close>, lines 130-155.\<close>

definition focusOnJob :: "env \<Rightarrow> node list \<Rightarrow> string \<Rightarrow> string \<Rightarrow> unit comp" where
  "focusOnJob E mSessionNodes sessionName jobId =
     (case find (\<lambda>jobNode. trim (label jobNode) = trim sessionName) mSessionNodes of
        Some sn \<Rightarrow> focusOnSessionNode E (Some sn) jobId
      | None \<Rightarrow>
          tryCatchReturn (callAwait (AddSession sessionName) (addSession E sessionName mSessionNodes))
            (\<lambda>error. errorHandling error None (message error))
            (\<lambda>nodes. focusOnSessionNode E (find (\<lambda>jobNode. label jobNode = sessionName) nodes) jobId))"

text \<open>\<^verbatim>\<open>modifyCommand(job)\<close>, lines 162-176.\<close>

definition modifyCommand :: "env \<Rightarrow> node \<Rightarrow> unit comp" where
  "modifyCommand E jb =
     tryCatch
       (andThen (callAwait (ShowInputBox (localize E ''modifyCommand.command.prompt'' ''Modify Command''))
                   (showInputBox E (localize E ''modifyCommand.command.prompt'' ''Modify Command'')))
          (\<lambda>command. case command of
               None \<Rightarrow> ret ()
             | Some cmd \<Rightarrow>
                 (case job jb of
                    None \<Rightarrow> raise (TypeError ''Cannot read properties of undefined (reading 'jobname')'')
                  | Some j \<Rightarrow>
                      andThen (callAwait (IssueSimple (getSession jb) (''f '' @ jobname j @ '','' @ cmd))
                                 (issueSimple E (getSession jb) (''f '' @ jobname j @ '','' @ cmd)))
                        (\<lambda>response.
                           callDrop
                             (ShowInformationMessage
                                (localize E ''modifyCommand.response'' ''Command response: '' @ response))
                             (showInformationMessage E
                                (localize E ''modifyCommand.response'' ''Command response: '' @ response))))))
       (\<lambda>error. errorHandling error None (message error))"

text \<open>\<^verbatim>\<open>stopCommand(job)\<close>, lines 183-192.\<close>

definition stopCommand :: "env \<Rightarrow> node \<Rightarrow> unit comp" where
  "stopCommand E jb =
     tryCatch
       (case job jb of
          None \<Rightarrow> raise (TypeError ''Cannot read properties of undefined (reading 'jobname')'')
        | Some j \<Rightarrow>
            andThen (callAwait (IssueSimple (getSession jb) (''p '' @ jobname j))
                       (issueSimple E (getSession jb) (''p '' @ jobname j)))
              (\<lambda>response.
                 callDrop
                   (ShowInformationMessage
                      (localize E ''stopCommand.response'' ''Command response: '' @ response))
                   (showInformationMessage E
                      (localize E ''stopCommand.response'' ''Command response: '' @ response))))
       (\<lambda>error. errorHandling error None (message error))"

text \<open>
  \<^verbatim>\<open>setOwner(job, jobsProvider)\<close>, lines 201-205, and \<^verbatim>\<open>setPrefix\<close>, lines 213-219.
  The node is mutated in place: the result is the node as the handler leaves it, and the
  computation. The assignment of line 203 (217) is the event \<open>AssignOwner\<close>
  (\<open>AssignPrefix\<close>) with the label of the node and the value assigned; what it does to the
  node is \<open>ownerSetter\<close> (\<open>prefixSetter\<close>).
\<close>

definition setOwner :: "env \<Rightarrow> node \<Rightarrow> node \<times> unit comp" where
  "setOwner E jb =
     (case callAwait (ShowInputBox (localize E ''setOwner.newOwner.prompt.owner'' ''Owner''))
             (showInputBox E (localize E ''setOwner.newOwner.prompt.owner'' ''Owner'')) of
        (t, Inl e) \<Rightarrow> (jb, (t, Inl e))
      | (t, Inr newOwner) \<Rightarrow>
          (ownerSetter E jb newOwner,
           andThen (t @ [AssignOwner (label jb) newOwner], Inr ())
             (\<lambda>_. call (RefreshElement (Some (ownerSetter E jb newOwner)))
                    (refreshElement E (Some (ownerSetter E jb newOwner))))))"

definition setPrefix :: "env \<Rightarrow> node \<Rightarrow> node \<times> unit comp" where
  "setPrefix E jb =
     (case callAwait (ShowInputBox (localize E ''setOwner.newOwner.prompt.prefix'' ''Prefix''))
             (showInputBox E (localize E ''setOwner.newOwner.prompt.prefix'' ''Prefix'')) of
        (t, Inl e) \<Rightarrow> (jb, (t, Inl e))
      | (t, Inr newPrefix) \<Rightarrow>
          (prefixSetter E jb newPrefix,
           andThen (t @ [AssignPrefix (label jb) newPrefix], Inr ())
             (\<lambda>_. call (RefreshElement (Some (prefixSetter E jb newPrefix)))
                    (refreshElement E (Some (prefixSetter E jb newPrefix))))))"

text \<open>
  The loop of lines 233-236 of \<^verbatim>\<open>deleteCommand\<close>: each node is deleted, the deletion
  awaited, and its name put at the front of \<^verbatim>\<open>deletedNodes\<close> (\<^verbatim>\<open>unshift\<close>).
\<close>

fun deleteLoop :: "env \<Rightarrow> node list \<Rightarrow> string list \<Rightarrow> string list comp" where
  "deleteLoop E [] deletedNodes = ret deletedNodes"
| "deleteLoop E (n # ns) deletedNodes =
     (case callAwait (Delete n) (delete E n) of
        (t, Inl e) \<Rightarrow> (t, Inl e)
      | (t, Inr _) \<Rightarrow>
          (case job n of
             None \<Rightarrow>
               (t @ [Raised (TypeError ''Cannot read properties of undefined (reading 'jobname')'')],
                Inl (TypeError ''Cannot read properties of undefined (reading 'jobname')''))
           | Some j \<Rightarrow>
               (case deleteLoop E ns (('' '' @ jobname j @ ''('' @ jobid j @ '')'') # deletedNodes) of
                  (t', r) \<Rightarrow> (t @ t', r))))"

text \<open>
  \<^verbatim>\<open>deleteCommand(job, jobsProvider)\<close>, lines 226-255. The argument \<open>jb\<close> is \<open>None\<close> when
  the handler is called without a job. \<^verbatim>\<open>deletedNodes.pop()\<close> removes the last element,
  the placeholder the array started with.
\<close>

definition deleteCommand :: "env \<Rightarrow> node option \<Rightarrow> unit comp" where
  "deleteCommand E jb =
     andThen (call GetTreeView (getTreeView E))
       (\<lambda>tv. andThen
          (if length (filter (\<lambda>jobNode. job jobNode \<noteq> None) (selection tv)) > 0
           then andThen (deleteLoop E (filter (\<lambda>jobNode. job jobNode \<noteq> None) (selection tv)) ['' ''])
                  (\<lambda>deletedNodes.
                     callDrop
                       (ShowInformationMessage
                          (localize E ''deleteMulti.job'' ''The following jobs were deleted:'' @
                             arrayToString (butlast deletedNodes)))
                       (showInformationMessage E
                          (localize E ''deleteMulti.job'' ''The following jobs were deleted:'' @
                             arrayToString (butlast deletedNodes))))
           else ret ())
          (\<lambda>_. andThen
             (case jb of
                None \<Rightarrow> ret ()
              | Some jn \<Rightarrow>
                  if \<not> (length (filter (\<lambda>jobNode. job jobNode \<noteq> None) (selection tv)) > 0)
                  then andThen (callDrop (Delete jn) (delete E jn))
                         (\<lambda>_. case job jn of
                              None \<Rightarrow> raise (TypeError ''Cannot read properties of undefined (reading 'jobname')'')
                            | Some j \<Rightarrow>
                                callDrop
                                  (ShowInformationMessage
                                     (localize E ''deleteCommand.job'' ''Job '' @ jobname j @ ''('' @
                                        jobid j @ '')'' @ localize E ''deleteCommand.delete'' '' deleted''))
                                  (showInformationMessage E
                                     (localize E ''deleteCommand.job'' ''Job '' @ jobname j @ ''('' @
                                        jobid j @ '')'' @ localize E ''deleteCommand.delete'' '' deleted'')))
                  else ret ())
             (\<lambda>_. callAwait (ExecuteCommand ''zowe.jobs.refreshAllJobs'')
                    (executeCommand E ''zowe.jobs.refreshAllJobs''))))"

subsection \<open>Reading a trace\<close>

text \<open>The calls of a trace: its events without the marks of raised errors.\<close>

definition calls :: "event list \<Rightarrow> event list" where
  "calls t = filter (\<lambda>ev. case ev of Raised _ \<Rightarrow> False | _ \<Rightarrow> True) t"

definition errorsReported :: "event list \<Rightarrow> nat" where
  "errorsReported t = length (filter (\<lambda>ev. case ev of ErrorHandling _ _ _ \<Rightarrow> True | _ \<Rightarrow> False) t)"

definition errorsRaised :: "event list \<Rightarrow> nat" where
  "errorsRaised t = length (filter (\<lambda>ev. case ev of Raised _ \<Rightarrow> True | _ \<Rightarrow> False) t)"

definition commandsIssued :: "event list \<Rightarrow> event list" where
  "commandsIssued t = filter (\<lambda>ev. case ev of IssueSimple _ _ \<Rightarrow> True | _ \<Rightarrow> False) t"

definition inputBoxesShown :: "event list \<Rightarrow> event list" where
  "inputBoxesShown t = filter (\<lambda>ev. case ev of ShowInputBox _ \<Rightarrow> True | _ \<Rightarrow> False) t"

definition spoolDownloads :: "event list \<Rightarrow> event list" where
  "spoolDownloads t = filter (\<lambda>ev. case ev of DownloadSpoolContent _ _ _ \<Rightarrow> True | _ \<Rightarrow> False) t"

definition documentsShown :: "event list \<Rightarrow> event list" where
  "documentsShown t = filter (\<lambda>ev. case ev of ShowTextDocument _ \<Rightarrow> True | _ \<Rightarrow> False) t"

definition sessionsAdded :: "event list \<Rightarrow> event list" where
  "sessionsAdded t = filter (\<lambda>ev. case ev of AddSession _ \<Rightarrow> True | _ \<Rightarrow> False) t"

definition refreshes :: "event list \<Rightarrow> event list" where
  "refreshes t = filter (\<lambda>ev. case ev of RefreshElement _ \<Rightarrow> True | _ \<Rightarrow> False) t"

definition broadcasts :: "event list \<Rightarrow> event list" where
  "broadcasts t = filter (\<lambda>ev. case ev of ExecuteCommand _ \<Rightarrow> True | _ \<Rightarrow> False) t"

text \<open>
  A computation in which every error raised was reported and none left it: it ends
  normally, with as many calls of the error reporter as errors raised, at most one.
\<close>

definition handledOnce :: "unit comp \<Rightarrow> bool" where
  "handledOnce m =
     (snd m = Inr () \<and> errorsReported (fst m) = errorsRaised (fst m) \<and> errorsRaised (fst m) \<le> 1)"

text \<open>The display string of a job node that \<^verbatim>\<open>deleteCommand\<close> builds at line 235.\<close>

definition deletedName :: "ijob \<Rightarrow> string" where
  "deletedName j = '' '' @ jobname j @ ''('' @ jobid j @ '')''"

subsection \<open>Concrete collaborators and nodes\<close>

text \<open>
  An environment in which every collaborator succeeds, every dialog is cancelled,
  nothing is selected and a field of a node takes the value assigned to it; the examples
  below change it field by field.
\<close>

definition calmEnv :: env where
  "calmEnv =
     \<lparr> localize = (\<lambda>key dflt. dflt),
       toUniqueJobFileUri = (\<lambda>s sp ts. s @ ''/'' @ sp @ ''?'' @ ts),
       numberToString = (\<lambda>n. ''1600000000000''),
       showOpenDialog = (\<lambda>lbl. Returns (Fulfilled None)),
       showInputBox = (\<lambda>prompt. Returns (Fulfilled None)),
       showTextDocument = (\<lambda>d. Returns (Fulfilled ())),
       openTextDocument = (\<lambda>lang txt. Returns (Fulfilled \<lparr>language = lang, content = txt\<rparr>)),
       showInformationMessage = (\<lambda>msg. Returns (Fulfilled ())),
       executeCommand = (\<lambda>c. Returns (Fulfilled ())),
       loadNamedProfile = (\<lambda>name. Returns name),
       checkCurrentProfile = (\<lambda>p. Returns (Fulfilled VALID)),
       getJesApi = (\<lambda>p. Returns ()),
       downloadSpoolContent = (\<lambda>p jid jname dir. Returns (Fulfilled ())),
       getJclForJob = (\<lambda>p j. Returns (Fulfilled ''//JOB'')),
       issueSimple = (\<lambda>s c. Returns (Fulfilled ''OK'')),
       treeCheckCurrentProfile = (\<lambda>n. Returns VALID),
       refreshElement = (\<lambda>n. Returns ()),
       addSession = (\<lambda>name nodes. Returns (Fulfilled nodes)),
       getChildren = (\<lambda>n. Returns (Fulfilled [])),
       getTreeView = Returns \<lparr>selection = []\<rparr>,
       setItem = (\<lambda>tv n. Returns ()),
       delete = (\<lambda>n. Returns (Fulfilled ())),
       ownerSetter = directOwner,
       prefixSetter = directPrefix \<rparr>"

definition jobNode :: "string \<Rightarrow> string \<Rightarrow> node" where
  "jobNode name ident =
     \<lparr> label = name @ ''('' @ ident @ '')'',
       job = Some \<lparr>jobid = ident, jobname = name\<rparr>,
       owner = Some ''IBMUSER'', prefix = Some ''*'', searchId = None,
       profile = ''zosmf1'', session = ''zosmf1'' \<rparr>"

definition sessionNode :: "string \<Rightarrow> node" where
  "sessionNode name =
     \<lparr> label = name, job = None,
       owner = Some ''IBMUSER'', prefix = Some ''*'', searchId = None,
       profile = name, session = name \<rparr>"

section \<open>Properties\<close>

subsection \<open>Stepping through a computation\<close>

lemma andThen_Inl: "andThen (t, Inl e) f = (t, Inl e)"
  by (simp add: andThen_def)

lemma andThen_Inr: "andThen (t, Inr v) f = (case f v of (t', r) \<Rightarrow> (t @ t', r))"
  by (simp add: andThen_def)

lemma tryCatch_Inl: "tryCatch (t, Inl e) h = (case h e of (t', r) \<Rightarrow> (t @ t', r))"
  by (simp add: tryCatch_def)

lemma tryCatch_Inr: "tryCatch (t, Inr v) h = (t, Inr v)"
  by (simp add: tryCatch_def)

lemma tryCatchReturn_Inl: "tryCatchReturn (t, Inl e) h k = (case h e of (t', r) \<Rightarrow> (t @ t', r))"
  by (simp add: tryCatchReturn_def)

lemma tryCatchReturn_Inr: "tryCatchReturn (t, Inr v) h k = (case k v of (t', r) \<Rightarrow> (t @ t', r))"
  by (simp add: tryCatchReturn_def)

lemmas comp_simps =
  andThen_Inl andThen_Inr tryCatch_Inl tryCatch_Inr tryCatchReturn_Inl tryCatchReturn_Inr
  call_def callAwait_def callDrop_def await_def ret_def raise_def errorHandling_def

lemmas trace_defs =
  calls_def errorsReported_def errorsRaised_def commandsIssued_def inputBoxesShown_def
  spoolDownloads_def documentsShown_def sessionsAdded_def refreshes_def broadcasts_def

lemmas example_defs =
  calmEnv_def jobNode_def sessionNode_def getProfile_def getSession_def directOwner_def directPrefix_def

subsection \<open>Errors raised inside a handler\<close>

lemma downloadSpool_handledOnce: "handledOnce (downloadSpool E jb)"
proof -
  obtain t r where m: "downloadSpool E jb = (t, r)"
    by (cases "downloadSpool E jb")
  have "r = Inr () \<and> errorsReported t = errorsRaised t \<and> errorsRaised t \<le> 1"
    using m
    by (auto simp add: downloadSpool_def comp_simps errorsReported_def errorsRaised_def
          split: outcome.splits promise.splits option.splits list.splits)
  then show ?thesis
    by (simp add: handledOnce_def m)
qed

lemma downloadJcl_handledOnce: "handledOnce (downloadJcl E jb)"
proof -
  obtain t r where m: "downloadJcl E jb = (t, r)"
    by (cases "downloadJcl E jb")
  have "r = Inr () \<and> errorsReported t = errorsRaised t \<and> errorsRaised t \<le> 1"
    using m
    by (auto simp add: downloadJcl_def comp_simps errorsReported_def errorsRaised_def
          split: outcome.splits promise.splits)
  then show ?thesis
    by (simp add: handledOnce_def m)
qed

lemma modifyCommand_handledOnce: "handledOnce (modifyCommand E jb)"
proof -
  obtain t r where m: "modifyCommand E jb = (t, r)"
    by (cases "modifyCommand E jb")
  have "r = Inr () \<and> errorsReported t = errorsRaised t \<and> errorsRaised t \<le> 1"
    using m
    by (auto simp add: modifyCommand_def comp_simps errorsReported_def errorsRaised_def
          split: outcome.splits promise.splits option.splits)
  then show ?thesis
    by (simp add: handledOnce_def m)
qed

lemma stopCommand_handledOnce: "handledOnce (stopCommand E jb)"
proof -
  obtain t r where m: "stopCommand E jb = (t, r)"
    by (cases "stopCommand E jb")
  have "r = Inr () \<and> errorsReported t = errorsRaised t \<and> errorsRaised t \<le> 1"
    using m
    by (auto simp add: stopCommand_def comp_simps errorsReported_def errorsRaised_def
          split: outcome.splits promise.splits option.splits)
  then show ?thesis
    by (simp add: handledOnce_def m)
qed

lemma getSpoolContent_checked_handledOnce:
  assumes "loadNamedProfile E sess = Returns p" and "checkCurrentProfile E p = Returns (Fulfilled v)"
  shows "handledOnce (getSpoolContent E sess spool ts)"
proof -
  obtain t r where m: "getSpoolContent E sess spool ts = (t, r)"
    by (cases "getSpoolContent E sess spool ts")
  have "r = Inr () \<and> errorsReported t = errorsRaised t \<and> errorsRaised t \<le> 1"
    using m assms
    by (auto simp add: getSpoolContent_def comp_simps errorsReported_def errorsRaised_def
          split: outcome.splits promise.splits if_splits)
  then show ?thesis
    by (simp add: handledOnce_def m)
qed

lemma getSpoolContent_unresolved:
  "loadNamedProfile E sess = Throws e \<Longrightarrow>
   getSpoolContent E sess spool ts =
     ([LoadNamedProfile sess, Raised e, ErrorHandling e (Some sess) (message e)], Inr ())"
  by (simp add: getSpoolContent_def comp_simps)

lemma focusOnSessionNode_refresh_fails:
  "refreshElement E sno = Throws e \<Longrightarrow>
   focusOnSessionNode E sno jobId =
     ([RefreshElement sno, Raised e, ErrorHandling e None (message e)], Inr ())"
  by (simp add: focusOnSessionNode_def comp_simps)

lemma focusOnJob_addSession_fails:
  "find (\<lambda>jobNode. trim (label jobNode) = trim sessionName) nodes = None \<Longrightarrow>
   addSession E sessionName nodes = Throws e \<or> addSession E sessionName nodes = Returns (Rejected e) \<Longrightarrow>
   focusOnJob E nodes sessionName jobId =
     ([AddSession sessionName, Raised e, ErrorHandling e None (message e)], Inr ())"
  by (auto simp add: focusOnJob_def comp_simps)

lemma focusOnJob_existing:
  "find (\<lambda>jobNode. trim (label jobNode) = trim sessionName) nodes = Some sn \<Longrightarrow>
   focusOnJob E nodes sessionName jobId = focusOnSessionNode E (Some sn) jobId"
  by (simp add: focusOnJob_def)

lemma focusOnJob_added:
  "find (\<lambda>jobNode. trim (label jobNode) = trim sessionName) nodes = None \<Longrightarrow>
   addSession E sessionName nodes = Returns (Fulfilled nodes') \<Longrightarrow>
   focusOnJob E nodes sessionName jobId =
     (AddSession sessionName #
        fst (focusOnSessionNode E (find (\<lambda>jobNode. label jobNode = sessionName) nodes') jobId),
      snd (focusOnSessionNode E (find (\<lambda>jobNode. label jobNode = sessionName) nodes') jobId))"
  by (simp add: focusOnJob_def comp_simps split: prod.split)

text \<open>
  Claim C1, as the code has it. The claim asks of every handler that an error thrown by
  a collaborator is reported once and never leaves the handler. \<^verbatim>\<open>setOwner\<close> has no
  \<^verbatim>\<open>try\<close>: when \<^verbatim>\<open>refreshElement\<close> throws, the error leaves the handler and the error
  reporter is not called.
\<close>

theorem setOwner_propagates_unreported:
  "snd (snd (setOwner (calmEnv\<lparr>refreshElement := (\<lambda>n. Throws (Failure ''refresh failed''))\<rparr>)
               (jobNode ''A'' ''1''))) = Inl (Failure ''refresh failed'')
   \<and> errorsReported
        (fst (snd (setOwner (calmEnv\<lparr>refreshElement := (\<lambda>n. Throws (Failure ''refresh failed''))\<rparr>)
                     (jobNode ''A'' ''1'')))) = 0"
  by (simp add: setOwner_def example_defs comp_simps trace_defs)

text \<open>
  Claim C1, amended. An error is an error object, a value carrying a message, which is
  what the \<^verbatim>\<open>catch\<close> blocks take it to be when they read \<^verbatim>\<open>error.message\<close>; a thrown
  \<^verbatim>\<open>undefined\<close> or \<^verbatim>\<open>null\<close> is not one, and the statement does not cover it. In
  \<^verbatim>\<open>downloadSpool\<close>, \<^verbatim>\<open>downloadJcl\<close>, \<^verbatim>\<open>modifyCommand\<close> and \<^verbatim>\<open>stopCommand\<close>, whose whole
  body is inside \<^verbatim>\<open>try\<close>, every error raised inside the handler (a collaborator throws
  it, or an awaited promise is rejected with it) is reported by exactly one call of the
  error reporter and does not leave the handler. \<^verbatim>\<open>getSpoolContent\<close> does the same for
  an error of \<^verbatim>\<open>loadNamedProfile\<close> and, once the profile has been checked, of
  \<^verbatim>\<open>showTextDocument\<close>; \<^verbatim>\<open>focusOnJob\<close> does the same for an error of \<^verbatim>\<open>addSession\<close> and
  for an error of \<^verbatim>\<open>refreshElement\<close>, whether the session node was there or has just been
  added.
\<close>

theorem wrapped_calls_report_once:
  "handledOnce (downloadSpool E jb) \<and> handledOnce (downloadJcl E jb)
   \<and> handledOnce (modifyCommand E jb) \<and> handledOnce (stopCommand E jb)
   \<and> (loadNamedProfile E sess = Throws e \<longrightarrow>
        getSpoolContent E sess spool ts =
          ([LoadNamedProfile sess, Raised e, ErrorHandling e (Some sess) (message e)], Inr ()))
   \<and> (loadNamedProfile E sess = Returns p \<and> checkCurrentProfile E p = Returns (Fulfilled v) \<longrightarrow>
        handledOnce (getSpoolContent E sess spool ts))
   \<and> (find (\<lambda>jobNode. trim (label jobNode) = trim sessionName) nodes = None
        \<and> (addSession E sessionName nodes = Throws e
             \<or> addSession E sessionName nodes = Returns (Rejected e)) \<longrightarrow>
        focusOnJob E nodes sessionName jobId =
          ([AddSession sessionName, Raised e, ErrorHandling e None (message e)], Inr ()))
   \<and> (find (\<lambda>jobNode. trim (label jobNode) = trim sessionName) nodes = Some sn
        \<and> refreshElement E (Some sn) = Throws e \<longrightarrow>
        focusOnJob E nodes sessionName jobId =
          ([RefreshElement (Some sn), Raised e, ErrorHandling e None (message e)], Inr ()))
   \<and> (find (\<lambda>jobNode. trim (label jobNode) = trim sessionName) nodes = None
        \<and> addSession E sessionName nodes = Returns (Fulfilled nodes')
        \<and> refreshElement E (find (\<lambda>jobNode. label jobNode = sessionName) nodes') = Throws e \<longrightarrow>
        focusOnJob E nodes sessionName jobId =
          ([AddSession sessionName,
            RefreshElement (find (\<lambda>jobNode. label jobNode = sessionName) nodes'),
            Raised e, ErrorHandling e None (message e)], Inr ()))"
proof -
  have h1: "handledOnce (downloadSpool E jb)"
    by (rule downloadSpool_handledOnce)
  have h2: "handledOnce (downloadJcl E jb)"
    by (rule downloadJcl_handledOnce)
  have h3: "handledOnce (modifyCommand E jb)"
    by (rule modifyCommand_handledOnce)
  have h4: "handledOnce (stopCommand E jb)"
    by (rule stopCommand_handledOnce)
  have h5: "loadNamedProfile E sess = Throws e \<longrightarrow>
        getSpoolContent E sess spool ts =
          ([LoadNamedProfile sess, Raised e, ErrorHandling e (Some sess) (message e)], Inr ())"
    by (simp add: getSpoolContent_unresolved)
  have h6: "loadNamedProfile E sess = Returns p \<and> checkCurrentProfile E p = Returns (Fulfilled v) \<longrightarrow>
        handledOnce (getSpoolContent E sess spool ts)"
    using getSpoolContent_checked_handledOnce by blast
  have h7: "find (\<lambda>jobNode. trim (label jobNode) = trim sessionName) nodes = None
        \<and> (addSession E sessionName nodes = Throws e
             \<or> addSession E sessionName nodes = Returns (Rejected e)) \<longrightarrow>
        focusOnJob E nodes sessionName jobId =
          ([AddSession sessionName, Raised e, ErrorHandling e None (message e)], Inr ())"
    using focusOnJob_addSession_fails [of sessionName nodes E e jobId] by blast
  have h8: "find (\<lambda>jobNode. trim (label jobNode) = trim sessionName) nodes = Some sn
        \<and> refreshElement E (Some sn) = Throws e \<longrightarrow>
        focusOnJob E nodes sessionName jobId =
          ([RefreshElement (Some sn), Raised e, ErrorHandling e None (message e)], Inr ())"
    by (simp add: focusOnJob_existing focusOnSessionNode_refresh_fails)
  have h9: "find (\<lambda>jobNode. trim (label jobNode) = trim sessionName) nodes = None
        \<and> addSession E sessionName nodes = Returns (Fulfilled nodes')
        \<and> refreshElement E (find (\<lambda>jobNode. label jobNode = sessionName) nodes') = Throws e \<longrightarrow>
        focusOnJob E nodes sessionName jobId =
          ([AddSession sessionName,
            RefreshElement (find (\<lambda>jobNode. label jobNode = sessionName) nodes'),
            Raised e, ErrorHandling e None (message e)], Inr ())"
    by (simp add: focusOnJob_added focusOnSessionNode_refresh_fails)
  show ?thesis
    by (intro conjI; fact)
qed

theorem wrapped_calls_report_once_witness:
  "handledOnce (stopCommand (calmEnv\<lparr>issueSimple := (\<lambda>s c. Returns (Rejected (Failure ''timeout'')))\<rparr>)
                  (jobNode ''A'' ''1''))
   \<and> getSpoolContent (calmEnv\<lparr>loadNamedProfile := (\<lambda>name. Throws (Failure ''no such profile''))\<rparr>)
        ''zosmf1'' ''JESMSGLG'' 1 =
        ([LoadNamedProfile ''zosmf1'', Raised (Failure ''no such profile''),
          ErrorHandling (Failure ''no such profile'') (Some ''zosmf1'')
            (message (Failure ''no such profile''))], Inr ())
   \<and> handledOnce
        (getSpoolContent (calmEnv\<lparr>showTextDocument := (\<lambda>d. Returns (Rejected (Failure ''cannot open'')))\<rparr>)
           ''zosmf1'' ''JESMSGLG'' 1)
   \<and> focusOnJob (calmEnv\<lparr>addSession := (\<lambda>name nodes. Returns (Rejected (Failure ''no profile'')))\<rparr>)
        [] ''zosmf1'' ''JOB00001'' =
        ([AddSession ''zosmf1'', Raised (Failure ''no profile''),
          ErrorHandling (Failure ''no profile'') None (message (Failure ''no profile''))], Inr ())
   \<and> focusOnJob (calmEnv\<lparr>refreshElement := (\<lambda>n. Throws (Failure ''refresh failed''))\<rparr>)
        [sessionNode ''zosmf1''] ''zosmf1'' ''JOB00001'' =
        ([RefreshElement (Some (sessionNode ''zosmf1'')), Raised (Failure ''refresh failed''),
          ErrorHandling (Failure ''refresh failed'') None (message (Failure ''refresh failed''))],
         Inr ())
   \<and> focusOnJob
        (calmEnv\<lparr>addSession := (\<lambda>name nodes. Returns (Fulfilled (nodes @ [sessionNode name]))),
                  refreshElement := (\<lambda>n. Throws (Failure ''refresh failed''))\<rparr>)
        [] ''zosmf1'' ''JOB00001'' =
        ([AddSession ''zosmf1'', RefreshElement (Some (sessionNode ''zosmf1'')),
          Raised (Failure ''refresh failed''),
          ErrorHandling (Failure ''refresh failed'') None (message (Failure ''refresh failed''))],
         Inr ())"
proof -
  note rest = wrapped_calls_report_once [THEN conjunct2, THEN conjunct2, THEN conjunct2, THEN conjunct2]
  note tail = rest [THEN conjunct2, THEN conjunct2, THEN conjunct2]
  have a: "handledOnce (stopCommand (calmEnv\<lparr>issueSimple := (\<lambda>s c. Returns (Rejected (Failure ''timeout'')))\<rparr>)
                  (jobNode ''A'' ''1''))"
    by (rule wrapped_calls_report_once [THEN conjunct2, THEN conjunct2, THEN conjunct2, THEN conjunct1])
  have b: "getSpoolContent (calmEnv\<lparr>loadNamedProfile := (\<lambda>name. Throws (Failure ''no such profile''))\<rparr>)
        ''zosmf1'' ''JESMSGLG'' 1 =
        ([LoadNamedProfile ''zosmf1'', Raised (Failure ''no such profile''),
          ErrorHandling (Failure ''no such profile'') (Some ''zosmf1'')
            (message (Failure ''no such profile''))], Inr ())"
    by (rule rest [THEN conjunct1, rule_format]) (simp add: calmEnv_def)
  have c: "handledOnce
        (getSpoolContent (calmEnv\<lparr>showTextDocument := (\<lambda>d. Returns (Rejected (Failure ''cannot open'')))\<rparr>)
           ''zosmf1'' ''JESMSGLG'' 1)"
    by (rule rest [THEN conjunct2, THEN conjunct1, rule_format, where p = "''zosmf1''" and v = VALID])
       (simp add: calmEnv_def)
  have d: "focusOnJob (calmEnv\<lparr>addSession := (\<lambda>name nodes. Returns (Rejected (Failure ''no profile'')))\<rparr>)
        [] ''zosmf1'' ''JOB00001'' =
        ([AddSession ''zosmf1'', Raised (Failure ''no profile''),
          ErrorHandling (Failure ''no profile'') None (message (Failure ''no profile''))], Inr ())"
    by (rule rest [THEN conjunct2, THEN conjunct2, THEN conjunct1, rule_format]) (simp add: calmEnv_def)
  have e: "focusOnJob (calmEnv\<lparr>refreshElement := (\<lambda>n. Throws (Failure ''refresh failed''))\<rparr>)
        [sessionNode ''zosmf1''] ''zosmf1'' ''JOB00001'' =
        ([RefreshElement (Some (sessionNode ''zosmf1'')), Raised (Failure ''refresh failed''),
          ErrorHandling (Failure ''refresh failed'') None (message (Failure ''refresh failed''))],
         Inr ())"
    by (rule tail [THEN conjunct1, rule_format])
       (simp add: calmEnv_def sessionNode_def)
  have f: "focusOnJob
        (calmEnv\<lparr>addSession := (\<lambda>name nodes. Returns (Fulfilled (nodes @ [sessionNode name]))),
                  refreshElement := (\<lambda>n. Throws (Failure ''refresh failed''))\<rparr>)
        [] ''zosmf1'' ''JOB00001'' =
        ([AddSession ''zosmf1'',
          RefreshElement (find (\<lambda>jobNode. label jobNode = ''zosmf1'') ([] @ [sessionNode ''zosmf1''])),
          Raised (Failure ''refresh failed''),
          ErrorHandling (Failure ''refresh failed'') None (message (Failure ''refresh failed''))],
         Inr ())"
    by (rule tail [THEN conjunct2, rule_format]) simp
  have g: "find (\<lambda>jobNode. label jobNode = ''zosmf1'') ([] @ [sessionNode ''zosmf1'']) =
      Some (sessionNode ''zosmf1'')"
    by (simp add: sessionNode_def)
  show ?thesis
    using a b c d e f [unfolded g] by (intro conjI)
qed

subsection \<open>Cancelled prompts\<close>

text \<open>
  Claim C2, as the code has it. The claim asks that a cancelled prompt leaves every node
  and every collaborator untouched. \<^verbatim>\<open>setOwner\<close> does not look at what the input box
  gave: when the user cancels, the owner of the node, \<open>IBMUSER\<close> before, is overwritten
  with \<^verbatim>\<open>undefined\<close> and the tree provider is asked to refresh the node.
\<close>

theorem setOwner_cancel_assigns_and_refreshes:
  "owner (jobNode ''A'' ''1'') = Some ''IBMUSER''
   \<and> showInputBox calmEnv (localize calmEnv ''setOwner.newOwner.prompt.owner'' ''Owner'') = Returns (Fulfilled None)
   \<and> setOwner calmEnv (jobNode ''A'' ''1'') =
       ((jobNode ''A'' ''1'')\<lparr>owner := None\<rparr>,
        [ShowInputBox ''Owner'', AssignOwner ''A(1)'' None,
         RefreshElement (Some ((jobNode ''A'' ''1'')\<lparr>owner := None\<rparr>))],
        Inr ())"
  by (simp add: setOwner_def example_defs comp_simps)

text \<open>
  Claim C2, amended. In the handlers that test the result of their prompt,
  \<^verbatim>\<open>downloadSpool\<close> and \<^verbatim>\<open>modifyCommand\<close>, a cancelled prompt ends the handler: the
  prompt is its only call, no field of a node is assigned, and it returns normally.
\<close>

theorem cancelled_prompt_ends_guarded_handlers:
  "(showOpenDialog E (localize E ''downloadSpool.select'' ''Select'') = Returns (Fulfilled None) \<longrightarrow>
      downloadSpool E jb = ([ShowOpenDialog (localize E ''downloadSpool.select'' ''Select'')], Inr ()))
   \<and> (showInputBox E (localize E ''modifyCommand.command.prompt'' ''Modify Command'') = Returns (Fulfilled None) \<longrightarrow>
      modifyCommand E jb = ([ShowInputBox (localize E ''modifyCommand.command.prompt'' ''Modify Command'')], Inr ()))"
  by (simp add: downloadSpool_def modifyCommand_def comp_simps)

theorem cancelled_prompt_ends_guarded_handlers_witness:
  "downloadSpool calmEnv (jobNode ''A'' ''1'') = ([ShowOpenDialog ''Select''], Inr ())
   \<and> modifyCommand calmEnv (jobNode ''A'' ''1'') = ([ShowInputBox ''Modify Command''], Inr ())"
proof -
  have a: "downloadSpool calmEnv (jobNode ''A'' ''1'') =
      ([ShowOpenDialog (localize calmEnv ''downloadSpool.select'' ''Select'')], Inr ())"
    by (rule cancelled_prompt_ends_guarded_handlers [THEN conjunct1, rule_format])
       (simp add: calmEnv_def)
  have b: "modifyCommand calmEnv (jobNode ''A'' ''1'') =
      ([ShowInputBox (localize calmEnv ''modifyCommand.command.prompt'' ''Modify Command'')], Inr ())"
    by (rule cancelled_prompt_ends_guarded_handlers [THEN conjunct2, rule_format])
       (simp add: calmEnv_def)
  have l: "\<And>k d. localize calmEnv k d = d"
    by (simp add: calmEnv_def)
  show ?thesis
    using a b by (simp add: l)
qed

subsection \<open>Opening a spool file\<close>

text \<open>
  Claim C3. \<^verbatim>\<open>getSpoolContent\<close> shows a document only when the profile was resolved and
  \<^verbatim>\<open>validProfile\<close> after \<^verbatim>\<open>checkCurrentProfile\<close> is \<open>VALID\<close> or \<open>UNVERIFIED\<close>, and then it
  shows the document of the URI made from the session, the spool file and the time stamp.
  When \<^verbatim>\<open>loadNamedProfile\<close> throws, the error is reported through the error reporter and
  the handler returns: its whole trace is the failed call and the report.
\<close>

theorem getSpoolContent_opens_only_valid:
  "(ShowTextDocument d \<in> set (fst (getSpoolContent E sess spool ts)) \<longrightarrow>
      (\<exists>p v. loadNamedProfile E sess = Returns p \<and> checkCurrentProfile E p = Returns (Fulfilled v)
          \<and> (v = VALID \<or> v = UNVERIFIED)))
   \<and> (loadNamedProfile E sess = Throws e \<longrightarrow>
        getSpoolContent E sess spool ts =
          ([LoadNamedProfile sess, Raised e, ErrorHandling e (Some sess) (message e)], Inr ()))
   \<and> (loadNamedProfile E sess = Returns p \<and> checkCurrentProfile E p = Returns (Fulfilled v)
        \<and> (v = VALID \<or> v = UNVERIFIED) \<longrightarrow>
        documentsShown (fst (getSpoolContent E sess spool ts)) =
          [ShowTextDocument (ByUri (toUniqueJobFileUri E sess spool (numberToString E ts)))])"
  by (auto simp add: getSpoolContent_def comp_simps documentsShown_def
        split: outcome.splits promise.splits if_splits)

theorem getSpoolContent_opens_only_valid_witness:
  "(\<exists>p v. loadNamedProfile calmEnv ''zosmf1'' = Returns p
        \<and> checkCurrentProfile calmEnv p = Returns (Fulfilled v) \<and> (v = VALID \<or> v = UNVERIFIED))
   \<and> getSpoolContent (calmEnv\<lparr>loadNamedProfile := (\<lambda>name. Throws (Failure ''no such profile''))\<rparr>)
        ''zosmf1'' ''JESMSGLG'' 1 =
        ([LoadNamedProfile ''zosmf1'', Raised (Failure ''no such profile''),
          ErrorHandling (Failure ''no such profile'') (Some ''zosmf1'') ''no such profile''], Inr ())
   \<and> documentsShown (fst (getSpoolContent calmEnv ''zosmf1'' ''JESMSGLG'' 1)) =
        [ShowTextDocument (ByUri ''zosmf1/JESMSGLG?1600000000000'')]"
proof -
  have a: "\<exists>p v. loadNamedProfile calmEnv ''zosmf1'' = Returns p
        \<and> checkCurrentProfile calmEnv p = Returns (Fulfilled v) \<and> (v = VALID \<or> v = UNVERIFIED)"
    by (rule getSpoolContent_opens_only_valid [THEN conjunct1, rule_format,
          where d = "ByUri ''zosmf1/JESMSGLG?1600000000000''" and spool = "''JESMSGLG''" and ts = 1])
       (simp add: getSpoolContent_def comp_simps calmEnv_def)
  have b: "getSpoolContent (calmEnv\<lparr>loadNamedProfile := (\<lambda>name. Throws (Failure ''no such profile''))\<rparr>)
        ''zosmf1'' ''JESMSGLG'' 1 =
        ([LoadNamedProfile ''zosmf1'', Raised (Failure ''no such profile''),
          ErrorHandling (Failure ''no such profile'') (Some ''zosmf1'')
            (message (Failure ''no such profile''))], Inr ())"
    by (rule getSpoolContent_opens_only_valid [THEN conjunct2, THEN conjunct1, rule_format])
       (simp add: calmEnv_def)
  have c: "documentsShown (fst (getSpoolContent calmEnv ''zosmf1'' ''JESMSGLG'' 1)) =
        [ShowTextDocument
           (ByUri (toUniqueJobFileUri calmEnv ''zosmf1'' ''JESMSGLG'' (numberToString calmEnv 1)))]"
    by (rule getSpoolContent_opens_only_valid [THEN conjunct2, THEN conjunct2, rule_format,
          where p = "''zosmf1''" and v = VALID])
       (simp add: calmEnv_def)
  have u: "toUniqueJobFileUri calmEnv ''zosmf1'' ''JESMSGLG'' (numberToString calmEnv 1) =
      ''zosmf1/JESMSGLG?1600000000000''"
    by (simp add: calmEnv_def)
  show ?thesis
    using a b c by (simp add: u)
qed

subsection \<open>Operator commands\<close>

text \<open>
  Claim C6. For a job named \<open>jobname\<close>: when the input box gives a string, the one command
  \<^verbatim>\<open>modifyCommand\<close> issues is \<^verbatim>\<open>f <jobname>,<input>\<close>; when the prompt is cancelled it
  issues none; \<^verbatim>\<open>stopCommand\<close> issues \<^verbatim>\<open>p <jobname>\<close>, once, whatever the collaborators
  do, and shows no input box.
\<close>

theorem modify_and_stop_issue_one_command:
  "job jb = Some j \<longrightarrow>
     (showInputBox E (localize E ''modifyCommand.command.prompt'' ''Modify Command'') =
        Returns (Fulfilled (Some input)) \<longrightarrow>
      commandsIssued (fst (modifyCommand E jb)) =
        [IssueSimple (getSession jb) (''f '' @ jobname j @ '','' @ input)])
     \<and> (showInputBox E (localize E ''modifyCommand.command.prompt'' ''Modify Command'') =
        Returns (Fulfilled None) \<longrightarrow>
      commandsIssued (fst (modifyCommand E jb)) = [])
     \<and> commandsIssued (fst (stopCommand E jb)) = [IssueSimple (getSession jb) (''p '' @ jobname j)]
     \<and> inputBoxesShown (fst (stopCommand E jb)) = []"
proof -
  obtain tm rm where m: "modifyCommand E jb = (tm, rm)"
    by (cases "modifyCommand E jb")
  obtain ts rs where s: "stopCommand E jb = (ts, rs)"
    by (cases "stopCommand E jb")
  have a: "job jb = Some j \<longrightarrow>
     showInputBox E (localize E ''modifyCommand.command.prompt'' ''Modify Command'') =
        Returns (Fulfilled (Some input)) \<longrightarrow>
      commandsIssued tm = [IssueSimple (getSession jb) (''f '' @ jobname j @ '','' @ input)]"
    using m
    by (auto simp add: modifyCommand_def comp_simps commandsIssued_def
          split: outcome.splits promise.splits)
  have b: "showInputBox E (localize E ''modifyCommand.command.prompt'' ''Modify Command'') =
        Returns (Fulfilled None) \<longrightarrow> commandsIssued tm = []"
    using m by (auto simp add: modifyCommand_def comp_simps commandsIssued_def)
  have c: "job jb = Some j \<longrightarrow>
      commandsIssued ts = [IssueSimple (getSession jb) (''p '' @ jobname j)] \<and> inputBoxesShown ts = []"
    using s
    by (auto simp add: stopCommand_def comp_simps commandsIssued_def inputBoxesShown_def
          split: outcome.splits promise.splits)
  show ?thesis
    using a b c by (simp add: m s)
qed

theorem modify_and_stop_issue_one_command_witness:
  "commandsIssued
     (fst (modifyCommand (calmEnv\<lparr>showInputBox := (\<lambda>prompt. Returns (Fulfilled (Some ''DISPLAY'')))\<rparr>)
             (jobNode ''A'' ''1''))) = [IssueSimple ''zosmf1'' ''f A,DISPLAY'']
   \<and> commandsIssued (fst (modifyCommand calmEnv (jobNode ''A'' ''1''))) = []
   \<and> commandsIssued (fst (stopCommand calmEnv (jobNode ''A'' ''1''))) = [IssueSimple ''zosmf1'' ''p A'']
   \<and> inputBoxesShown (fst (stopCommand calmEnv (jobNode ''A'' ''1''))) = []"
proof -
  have j: "job (jobNode ''A'' ''1'') = Some \<lparr>jobid = ''1'', jobname = ''A''\<rparr>"
    by (simp add: jobNode_def)
  note T = modify_and_stop_issue_one_command [rule_format, OF j]
  have a: "commandsIssued
     (fst (modifyCommand (calmEnv\<lparr>showInputBox := (\<lambda>prompt. Returns (Fulfilled (Some ''DISPLAY'')))\<rparr>)
             (jobNode ''A'' ''1''))) =
     [IssueSimple (getSession (jobNode ''A'' ''1''))
        (''f '' @ jobname \<lparr>jobid = ''1'', jobname = ''A''\<rparr> @ '','' @ ''DISPLAY'')]"
    by (rule T [THEN conjunct1, rule_format]) simp
  have b: "commandsIssued (fst (modifyCommand calmEnv (jobNode ''A'' ''1''))) = []"
    by (rule T [THEN conjunct2, THEN conjunct1, rule_format]) (simp add: calmEnv_def)
  have c: "commandsIssued (fst (stopCommand calmEnv (jobNode ''A'' ''1''))) =
     [IssueSimple (getSession (jobNode ''A'' ''1'')) (''p '' @ jobname \<lparr>jobid = ''1'', jobname = ''A''\<rparr>)]"
    by (rule T [THEN conjunct2, THEN conjunct2, THEN conjunct1])
  have d: "inputBoxesShown (fst (stopCommand calmEnv (jobNode ''A'' ''1''))) = []"
    by (rule T [THEN conjunct2, THEN conjunct2, THEN conjunct2])
  have s: "getSession (jobNode ''A'' ''1'') = ''zosmf1''"
    by (simp add: getSession_def jobNode_def)
  show ?thesis
    using a b c d by (simp add: s)
qed

text \<open>
  Claim C9. Only \<^verbatim>\<open>undefined\<close> counts as cancellation in \<^verbatim>\<open>modifyCommand\<close>: when the user
  submits the empty string, the command \<^verbatim>\<open>f <jobname>,\<close> is issued.
\<close>

theorem modifyCommand_empty_input_is_issued:
  assumes "job jb = Some j"
    and "showInputBox E (localize E ''modifyCommand.command.prompt'' ''Modify Command'') =
           Returns (Fulfilled (Some []))"
  shows "commandsIssued (fst (modifyCommand E jb)) = [IssueSimple (getSession jb) (''f '' @ jobname j @ '','')]"
proof -
  obtain t r where m: "modifyCommand E jb = (t, r)"
    by (cases "modifyCommand E jb")
  have "commandsIssued t = [IssueSimple (getSession jb) (''f '' @ jobname j @ '','')]"
    using m assms
    by (auto simp add: modifyCommand_def comp_simps commandsIssued_def
          split: outcome.splits promise.splits)
  then show ?thesis
    by (simp add: m)
qed

theorem modifyCommand_empty_input_is_issued_witness:
  "commandsIssued
     (fst (modifyCommand (calmEnv\<lparr>showInputBox := (\<lambda>prompt. Returns (Fulfilled (Some '''')))\<rparr>)
             (jobNode ''A'' ''1''))) = [IssueSimple ''zosmf1'' ''f A,'']"
proof -
  have j: "job (jobNode ''A'' ''1'') = Some \<lparr>jobid = ''1'', jobname = ''A''\<rparr>"
    by (simp add: jobNode_def)
  have a: "commandsIssued
     (fst (modifyCommand (calmEnv\<lparr>showInputBox := (\<lambda>prompt. Returns (Fulfilled (Some '''')))\<rparr>)
             (jobNode ''A'' ''1''))) =
     [IssueSimple (getSession (jobNode ''A'' ''1'')) (''f '' @ jobname \<lparr>jobid = ''1'', jobname = ''A''\<rparr> @ '','')]"
    by (rule modifyCommand_empty_input_is_issued [OF j]) simp
  have s: "getSession (jobNode ''A'' ''1'') = ''zosmf1''"
    by (simp add: getSession_def jobNode_def)
  show ?thesis
    using a by (simp add: s)
qed

subsection \<open>Downloading the spool\<close>

text \<open>
  Claim C7. When the folder picker gives \<^verbatim>\<open>undefined\<close>, the dialog is the only call
  \<^verbatim>\<open>downloadSpool\<close> makes. When it gives a selection whose first folder is \<open>d\<close>, and the
  JES API of the job's profile is obtained, there is exactly one \<^verbatim>\<open>downloadSpoolContent\<close>
  call, with the job's id, the job's name and \<open>d\<close>. No run makes more than one.
\<close>

theorem downloadSpool_cancel_or_one_download:
  "(showOpenDialog E (localize E ''downloadSpool.select'' ''Select'') = Returns (Fulfilled None) \<longrightarrow>
      downloadSpool E jb = ([ShowOpenDialog (localize E ''downloadSpool.select'' ''Select'')], Inr ()))
   \<and> (showOpenDialog E (localize E ''downloadSpool.select'' ''Select'') =
         Returns (Fulfilled (Some (d # ds)))
       \<and> getJesApi E (getProfile jb) = Returns () \<and> job jb = Some j \<longrightarrow>
      spoolDownloads (fst (downloadSpool E jb)) = [DownloadSpoolContent (jobid j) (jobname j) d])
   \<and> length (spoolDownloads (fst (downloadSpool E jb))) \<le> 1"
proof -
  obtain t r where m: "downloadSpool E jb = (t, r)"
    by (cases "downloadSpool E jb")
  have a: "showOpenDialog E (localize E ''downloadSpool.select'' ''Select'') = Returns (Fulfilled None) \<longrightarrow>
      downloadSpool E jb = ([ShowOpenDialog (localize E ''downloadSpool.select'' ''Select'')], Inr ())"
    by (simp add: downloadSpool_def comp_simps)
  have b: "showOpenDialog E (localize E ''downloadSpool.select'' ''Select'') =
         Returns (Fulfilled (Some (d # ds)))
       \<and> getJesApi E (getProfile jb) = Returns () \<and> job jb = Some j \<longrightarrow>
      spoolDownloads t = [DownloadSpoolContent (jobid j) (jobname j) d]"
    using m
    by (auto simp add: downloadSpool_def comp_simps spoolDownloads_def
          split: outcome.splits promise.splits)
  have c: "length (spoolDownloads t) \<le> 1"
    using m
    by (auto simp add: downloadSpool_def comp_simps spoolDownloads_def
          split: outcome.splits promise.splits option.splits list.splits)
  show ?thesis
    using a b c by (simp add: m)
qed

theorem downloadSpool_cancel_or_one_download_witness:
  "downloadSpool calmEnv (jobNode ''A'' ''1'') = ([ShowOpenDialog ''Select''], Inr ())
   \<and> spoolDownloads
       (fst (downloadSpool (calmEnv\<lparr>showOpenDialog := (\<lambda>lbl. Returns (Fulfilled (Some [''/tmp/spool''])))\<rparr>)
               (jobNode ''A'' ''1''))) = [DownloadSpoolContent ''1'' ''A'' ''/tmp/spool'']"
proof -
  have a: "downloadSpool calmEnv (jobNode ''A'' ''1'') =
      ([ShowOpenDialog (localize calmEnv ''downloadSpool.select'' ''Select'')], Inr ())"
    by (rule downloadSpool_cancel_or_one_download [THEN conjunct1, rule_format])
       (simp add: calmEnv_def)
  have b: "spoolDownloads
       (fst (downloadSpool (calmEnv\<lparr>showOpenDialog := (\<lambda>lbl. Returns (Fulfilled (Some [''/tmp/spool''])))\<rparr>)
               (jobNode ''A'' ''1''))) =
       [DownloadSpoolContent (jobid \<lparr>jobid = ''1'', jobname = ''A''\<rparr>)
          (jobname \<lparr>jobid = ''1'', jobname = ''A''\<rparr>) ''/tmp/spool'']"
    by (rule downloadSpool_cancel_or_one_download [THEN conjunct2, THEN conjunct1, rule_format,
          where ds = "[]"])
       (simp add: calmEnv_def jobNode_def)
  have l: "\<And>k d. localize calmEnv k d = d"
    by (simp add: calmEnv_def)
  show ?thesis
    using a b by (simp add: l)
qed

subsection \<open>Owner and prefix\<close>

text \<open>
  Claim C8. Whatever the input box resolves to, \<^verbatim>\<open>undefined\<close> included, \<^verbatim>\<open>setOwner\<close>
  assigns it to the node's owner and then calls \<^verbatim>\<open>refreshElement\<close> once, on the node as
  the assignment leaves it; \<^verbatim>\<open>setPrefix\<close> does the same with the prefix. This holds
  whatever the assignment does to the node. Where the field takes the value assigned, as
  the spec has it, the node left is the node with that value in the field: after a
  cancelled prompt the field is \<^verbatim>\<open>undefined\<close>.
\<close>

theorem setOwner_setPrefix_assign_whatever_resolves:
  "(showInputBox E (localize E ''setOwner.newOwner.prompt.owner'' ''Owner'') = Returns (Fulfilled v) \<longrightarrow>
      fst (setOwner E jb) = ownerSetter E jb v
      \<and> calls (fst (snd (setOwner E jb))) =
          [ShowInputBox (localize E ''setOwner.newOwner.prompt.owner'' ''Owner''),
           AssignOwner (label jb) v, RefreshElement (Some (ownerSetter E jb v))]
      \<and> (ownerSetter E = directOwner \<longrightarrow>
           fst (setOwner E jb) = jb\<lparr>owner := v\<rparr> \<and> owner (fst (setOwner E jb)) = v))
   \<and> (showInputBox E (localize E ''setOwner.newOwner.prompt.prefix'' ''Prefix'') = Returns (Fulfilled v) \<longrightarrow>
      fst (setPrefix E jb) = prefixSetter E jb v
      \<and> calls (fst (snd (setPrefix E jb))) =
          [ShowInputBox (localize E ''setOwner.newOwner.prompt.prefix'' ''Prefix''),
           AssignPrefix (label jb) v, RefreshElement (Some (prefixSetter E jb v))]
      \<and> (prefixSetter E = directPrefix \<longrightarrow>
           fst (setPrefix E jb) = jb\<lparr>prefix := v\<rparr> \<and> prefix (fst (setPrefix E jb)) = v))"
  by (simp add: setOwner_def setPrefix_def comp_simps calls_def directOwner_def directPrefix_def
        split: outcome.split promise.split)

theorem setOwner_setPrefix_assign_whatever_resolves_witness:
  "owner (jobNode ''A'' ''1'') = Some ''IBMUSER''
   \<and> fst (setOwner calmEnv (jobNode ''A'' ''1'')) = (jobNode ''A'' ''1'')\<lparr>owner := None\<rparr>
   \<and> calls (fst (snd (setOwner calmEnv (jobNode ''A'' ''1'')))) =
       [ShowInputBox ''Owner'', AssignOwner ''A(1)'' None,
        RefreshElement (Some ((jobNode ''A'' ''1'')\<lparr>owner := None\<rparr>))]
   \<and> prefix (jobNode ''A'' ''1'') = Some ''*''
   \<and> fst (setPrefix calmEnv (jobNode ''A'' ''1'')) = (jobNode ''A'' ''1'')\<lparr>prefix := None\<rparr>
   \<and> calls (fst (snd (setPrefix calmEnv (jobNode ''A'' ''1'')))) =
       [ShowInputBox ''Prefix'', AssignPrefix ''A(1)'' None,
        RefreshElement (Some ((jobNode ''A'' ''1'')\<lparr>prefix := None\<rparr>))]"
proof -
  have so: "ownerSetter calmEnv = directOwner" and sp: "prefixSetter calmEnv = directPrefix"
    by (simp_all add: calmEnv_def)
  have a: "fst (setOwner calmEnv (jobNode ''A'' ''1'')) = ownerSetter calmEnv (jobNode ''A'' ''1'') None
      \<and> calls (fst (snd (setOwner calmEnv (jobNode ''A'' ''1'')))) =
          [ShowInputBox (localize calmEnv ''setOwner.newOwner.prompt.owner'' ''Owner''),
           AssignOwner (label (jobNode ''A'' ''1'')) None,
           RefreshElement (Some (ownerSetter calmEnv (jobNode ''A'' ''1'') None))]
      \<and> (ownerSetter calmEnv = directOwner \<longrightarrow>
           fst (setOwner calmEnv (jobNode ''A'' ''1'')) = (jobNode ''A'' ''1'')\<lparr>owner := None\<rparr>
           \<and> owner (fst (setOwner calmEnv (jobNode ''A'' ''1''))) = None)"
    by (rule setOwner_setPrefix_assign_whatever_resolves [THEN conjunct1, THEN mp])
       (simp add: calmEnv_def)
  have b: "fst (setPrefix calmEnv (jobNode ''A'' ''1'')) = prefixSetter calmEnv (jobNode ''A'' ''1'') None
      \<and> calls (fst (snd (setPrefix calmEnv (jobNode ''A'' ''1'')))) =
          [ShowInputBox (localize calmEnv ''setOwner.newOwner.prompt.prefix'' ''Prefix''),
           AssignPrefix (label (jobNode ''A'' ''1'')) None,
           RefreshElement (Some (prefixSetter calmEnv (jobNode ''A'' ''1'') None))]
      \<and> (prefixSetter calmEnv = directPrefix \<longrightarrow>
           fst (setPrefix calmEnv (jobNode ''A'' ''1'')) = (jobNode ''A'' ''1'')\<lparr>prefix := None\<rparr>
           \<and> prefix (fst (setPrefix calmEnv (jobNode ''A'' ''1''))) = None)"
    by (rule setOwner_setPrefix_assign_whatever_resolves [THEN conjunct2, THEN mp])
       (simp add: calmEnv_def)
  have l: "\<And>k d. localize calmEnv k d = d"
    by (simp add: calmEnv_def)
  have o: "owner (jobNode ''A'' ''1'') = Some ''IBMUSER''" "prefix (jobNode ''A'' ''1'') = Some ''*''"
    "label (jobNode ''A'' ''1'') = ''A(1)''"
    by (simp_all add: jobNode_def)
  show ?thesis
    using a b by (simp add: l o so sp directOwner_def directPrefix_def)
qed

subsection \<open>Deleting jobs\<close>

lemma deleteLoop_all_deleted:
  "\<forall>n \<in> set ns. job n \<noteq> None \<and> delete E n = Returns (Fulfilled ()) \<Longrightarrow>
   deleteLoop E ns acc = (map Delete ns, Inr (rev (map (\<lambda>n. deletedName (the (job n))) ns) @ acc))"
proof (induction ns arbitrary: acc)
  case Nil
  then show ?case by (simp add: ret_def)
next
  case (Cons n ns)
  from Cons.prems obtain j where j: "job n = Some j" and d: "delete E n = Returns (Fulfilled ())"
    by auto
  from Cons.prems have rest: "\<forall>n \<in> set ns. job n \<noteq> None \<and> delete E n = Returns (Fulfilled ())"
    by simp
  show ?case
    by (simp add: j d comp_simps Cons.IH [OF rest] deletedName_def)
qed

lemma calls_Delete: "calls (map Delete ns) = map Delete ns"
  by (induction ns) (simp_all add: calls_def)

lemma broadcasts_Delete: "broadcasts (map Delete ns) = []"
  by (induction ns) (simp_all add: broadcasts_def)

lemma broadcasts_calls: "broadcasts (calls t) = broadcasts t"
  unfolding broadcasts_def calls_def filter_filter
  by (rule filter_cong [OF refl]) (simp split: event.split)

lemma broadcasts_no_calls: "calls t = [] \<Longrightarrow> broadcasts t = []"
  using broadcasts_calls [of t] by (simp add: broadcasts_def)

lemma deleteCommand_selected:
  assumes tv: "getTreeView E = Returns tv"
    and ns: "filter (\<lambda>jobNode. job jobNode \<noteq> None) (selection tv) = ns" "ns \<noteq> []"
    and del: "\<forall>n \<in> set ns. delete E n = Returns (Fulfilled ())"
    and msg: "showInformationMessage E
                (localize E ''deleteMulti.job'' ''The following jobs were deleted:'' @
                   arrayToString (rev (map (\<lambda>n. deletedName (the (job n))) ns))) = Returns p"
  shows "\<exists>post. fst (deleteCommand E arg) =
           GetTreeView # map Delete ns @
             [ShowInformationMessage
                (localize E ''deleteMulti.job'' ''The following jobs were deleted:'' @
                   arrayToString (rev (map (\<lambda>n. deletedName (the (job n))) ns))),
              ExecuteCommand ''zowe.jobs.refreshAllJobs''] @ post \<and> calls post = []"
proof -
  have "\<forall>n \<in> set ns. job n \<noteq> None \<and> delete E n = Returns (Fulfilled ())"
    using ns(1) del by auto
  then have loop: "deleteLoop E ns ['' ''] =
      (map Delete ns, Inr (rev (map (\<lambda>n. deletedName (the (job n))) ns) @ ['' '']))"
    by (rule deleteLoop_all_deleted)
  show ?thesis
    using ns(2)
    by (cases arg)
       (simp_all add: deleteCommand_def tv ns(1) loop msg comp_simps calls_def butlast_append
          del: not_None_eq split: outcome.split promise.split)
qed

lemma deleteCommand_single:
  assumes tv: "getTreeView E = Returns tv"
    and ns: "filter (\<lambda>jobNode. job jobNode \<noteq> None) (selection tv) = []"
    and jn: "job jn = Some j" "delete E jn = Returns q"
    and msg: "showInformationMessage E
                (localize E ''deleteCommand.job'' ''Job '' @ jobname j @ ''('' @ jobid j @ '')'' @
                   localize E ''deleteCommand.delete'' '' deleted'') = Returns p"
  shows "\<exists>post. fst (deleteCommand E (Some jn)) =
           [GetTreeView, Delete jn,
            ShowInformationMessage
              (localize E ''deleteCommand.job'' ''Job '' @ jobname j @ ''('' @ jobid j @ '')'' @
                 localize E ''deleteCommand.delete'' '' deleted''),
            ExecuteCommand ''zowe.jobs.refreshAllJobs''] @ post \<and> calls post = []"
  using msg
  by (simp add: deleteCommand_def tv ns jn comp_simps calls_def del: not_None_eq
        split: outcome.split promise.split)

lemma deleteCommand_nothing:
  assumes tv: "getTreeView E = Returns tv"
    and ns: "filter (\<lambda>jobNode. job jobNode \<noteq> None) (selection tv) = []"
  shows "\<exists>post. fst (deleteCommand E None) =
           [GetTreeView, ExecuteCommand ''zowe.jobs.refreshAllJobs''] @ post \<and> calls post = []"
  by (simp add: deleteCommand_def tv ns comp_simps calls_def del: not_None_eq
        split: outcome.split promise.split)

text \<open>
  Claim C4. With two job nodes selected, \<open>a\<close> and \<open>b\<close>, whatever else is selected and
  whatever job is passed, \<^verbatim>\<open>deleteCommand\<close> calls \<^verbatim>\<open>delete\<close> for \<open>a\<close> and for \<open>b\<close>, shows
  one notification listing both names (the later one first), and ends with one broadcast
  of \<^verbatim>\<open>zowe.jobs.refreshAllJobs\<close>. With no job node selected and the job \<open>c\<close> passed, it
  calls \<^verbatim>\<open>delete\<close> once, for \<open>c\<close>, shows a notification naming \<open>c\<close> alone, and ends with
  the same broadcast. The deletions and notifications are taken to return normally.
\<close>

theorem deleteCommand_selection_or_single_job:
  "getTreeView E = Returns tv \<longrightarrow>
   (filter (\<lambda>jobNode. job jobNode \<noteq> None) (selection tv) = [a, b]
      \<and> job a = Some ja \<and> job b = Some jb
      \<and> delete E a = Returns (Fulfilled ()) \<and> delete E b = Returns (Fulfilled ())
      \<and> showInformationMessage E
           (localize E ''deleteMulti.job'' ''The following jobs were deleted:'' @
              deletedName jb @ '','' @ deletedName ja) = Returns p \<longrightarrow>
      calls (fst (deleteCommand E arg)) =
        [GetTreeView, Delete a, Delete b,
         ShowInformationMessage
           (localize E ''deleteMulti.job'' ''The following jobs were deleted:'' @
              deletedName jb @ '','' @ deletedName ja),
         ExecuteCommand ''zowe.jobs.refreshAllJobs''])
   \<and> (filter (\<lambda>jobNode. job jobNode \<noteq> None) (selection tv) = []
      \<and> job c = Some jc \<and> delete E c = Returns q
      \<and> showInformationMessage E
           (localize E ''deleteCommand.job'' ''Job '' @ jobname jc @ ''('' @ jobid jc @ '')'' @
              localize E ''deleteCommand.delete'' '' deleted'') = Returns p \<longrightarrow>
      calls (fst (deleteCommand E (Some c))) =
        [GetTreeView, Delete c,
         ShowInformationMessage
           (localize E ''deleteCommand.job'' ''Job '' @ jobname jc @ ''('' @ jobid jc @ '')'' @
              localize E ''deleteCommand.delete'' '' deleted''),
         ExecuteCommand ''zowe.jobs.refreshAllJobs''])"
proof (intro impI conjI)
  assume tv: "getTreeView E = Returns tv"
  assume h: "filter (\<lambda>jobNode. job jobNode \<noteq> None) (selection tv) = [a, b]
      \<and> job a = Some ja \<and> job b = Some jb
      \<and> delete E a = Returns (Fulfilled ()) \<and> delete E b = Returns (Fulfilled ())
      \<and> showInformationMessage E
           (localize E ''deleteMulti.job'' ''The following jobs were deleted:'' @
              deletedName jb @ '','' @ deletedName ja) = Returns p"
  have "\<exists>post. fst (deleteCommand E arg) =
           GetTreeView # map Delete [a, b] @
             [ShowInformationMessage
                (localize E ''deleteMulti.job'' ''The following jobs were deleted:'' @
                   arrayToString (rev (map (\<lambda>n. deletedName (the (job n))) [a, b]))),
              ExecuteCommand ''zowe.jobs.refreshAllJobs''] @ post \<and> calls post = []"
    using h by (intro deleteCommand_selected [OF tv, where p = p]) simp_all
  then obtain post where "fst (deleteCommand E arg) =
           GetTreeView # map Delete [a, b] @
             [ShowInformationMessage
                (localize E ''deleteMulti.job'' ''The following jobs were deleted:'' @
                   arrayToString (rev (map (\<lambda>n. deletedName (the (job n))) [a, b]))),
              ExecuteCommand ''zowe.jobs.refreshAllJobs''] @ post" and "calls post = []"
    by blast
  then show "calls (fst (deleteCommand E arg)) =
        [GetTreeView, Delete a, Delete b,
         ShowInformationMessage
           (localize E ''deleteMulti.job'' ''The following jobs were deleted:'' @
              deletedName jb @ '','' @ deletedName ja),
         ExecuteCommand ''zowe.jobs.refreshAllJobs'']"
    using h by (simp add: calls_def)
next
  assume tv: "getTreeView E = Returns tv"
  assume h: "filter (\<lambda>jobNode. job jobNode \<noteq> None) (selection tv) = []
      \<and> job c = Some jc \<and> delete E c = Returns q
      \<and> showInformationMessage E
           (localize E ''deleteCommand.job'' ''Job '' @ jobname jc @ ''('' @ jobid jc @ '')'' @
              localize E ''deleteCommand.delete'' '' deleted'') = Returns p"
  then obtain post where "fst (deleteCommand E (Some c)) =
           [GetTreeView, Delete c,
            ShowInformationMessage
              (localize E ''deleteCommand.job'' ''Job '' @ jobname jc @ ''('' @ jobid jc @ '')'' @
                 localize E ''deleteCommand.delete'' '' deleted''),
            ExecuteCommand ''zowe.jobs.refreshAllJobs''] @ post" and "calls post = []"
    using deleteCommand_single [OF tv, of c jc q p] by blast
  then show "calls (fst (deleteCommand E (Some c))) =
        [GetTreeView, Delete c,
         ShowInformationMessage
           (localize E ''deleteCommand.job'' ''Job '' @ jobname jc @ ''('' @ jobid jc @ '')'' @
              localize E ''deleteCommand.delete'' '' deleted''),
         ExecuteCommand ''zowe.jobs.refreshAllJobs'']"
    by (simp add: calls_def)
qed

theorem deleteCommand_selection_or_single_job_witness:
  "calls (fst (deleteCommand
                 (calmEnv\<lparr>getTreeView :=
                    Returns \<lparr>selection = [sessionNode ''zosmf1'', jobNode ''A'' ''1'', jobNode ''B'' ''2'']\<rparr>\<rparr>)
                 None)) =
     [GetTreeView, Delete (jobNode ''A'' ''1''), Delete (jobNode ''B'' ''2''),
      ShowInformationMessage ''The following jobs were deleted: B(2), A(1)'',
      ExecuteCommand ''zowe.jobs.refreshAllJobs'']
   \<and> calls (fst (deleteCommand calmEnv (Some (jobNode ''C'' ''3'')))) =
     [GetTreeView, Delete (jobNode ''C'' ''3''), ShowInformationMessage ''Job C(3) deleted'',
      ExecuteCommand ''zowe.jobs.refreshAllJobs'']"
proof -
  let ?sel = "[sessionNode ''zosmf1'', jobNode ''A'' ''1'', jobNode ''B'' ''2'']"
  let ?E = "calmEnv\<lparr>getTreeView := Returns \<lparr>selection = ?sel\<rparr>\<rparr>"
  let ?ja = "\<lparr>jobid = ''1'', jobname = ''A''\<rparr>"
  let ?jb = "\<lparr>jobid = ''2'', jobname = ''B''\<rparr>"
  let ?jc = "\<lparr>jobid = ''3'', jobname = ''C''\<rparr>"
  have tv1: "getTreeView ?E = Returns \<lparr>selection = ?sel\<rparr>"
    by simp
  have tv2: "getTreeView calmEnv = Returns \<lparr>selection = []\<rparr>"
    by (simp add: calmEnv_def)
  have a: "calls (fst (deleteCommand ?E None)) =
     [GetTreeView, Delete (jobNode ''A'' ''1''), Delete (jobNode ''B'' ''2''),
      ShowInformationMessage
        (localize ?E ''deleteMulti.job'' ''The following jobs were deleted:'' @
           deletedName ?jb @ '','' @ deletedName ?ja),
      ExecuteCommand ''zowe.jobs.refreshAllJobs'']"
    by (rule deleteCommand_selection_or_single_job
          [rule_format, OF tv1, THEN conjunct1, rule_format, where p = "Fulfilled ()"])
       (simp add: calmEnv_def jobNode_def sessionNode_def)
  have b: "calls (fst (deleteCommand calmEnv (Some (jobNode ''C'' ''3'')))) =
     [GetTreeView, Delete (jobNode ''C'' ''3''),
      ShowInformationMessage
        (localize calmEnv ''deleteCommand.job'' ''Job '' @ jobname ?jc @ ''('' @ jobid ?jc @ '')'' @
           localize calmEnv ''deleteCommand.delete'' '' deleted''),
      ExecuteCommand ''zowe.jobs.refreshAllJobs'']"
    by (rule deleteCommand_selection_or_single_job
          [rule_format, OF tv2, THEN conjunct2, rule_format,
           where p = "Fulfilled ()" and q = "Fulfilled ()"])
       (simp add: calmEnv_def jobNode_def)
  have l: "\<And>k d. localize calmEnv k d = d"
    by (simp add: calmEnv_def)
  show ?thesis
    using a b by (simp add: l deletedName_def)
qed

text \<open>
  Claim C10, as the code has it. The claim asks of every invocation that it ends with one
  broadcast. \<^verbatim>\<open>deleteCommand\<close> has no \<^verbatim>\<open>try\<close>: when the deletion of a selected job is
  rejected, the error leaves the handler at the \<^verbatim>\<open>await\<close> and nothing is broadcast; when
  nothing is selected and the node passed has no job record, reading its job name raises a
  \<open>TypeError\<close> after the deletion is requested, and nothing is broadcast either.
\<close>

theorem deleteCommand_error_skips_broadcast:
  "deleteCommand
     (calmEnv\<lparr>getTreeView := Returns \<lparr>selection = [jobNode ''A'' ''1'']\<rparr>,
               delete := (\<lambda>n. Returns (Rejected (Failure ''delete failed'')))\<rparr>)
     None =
     ([GetTreeView, Delete (jobNode ''A'' ''1''), Raised (Failure ''delete failed'')],
      Inl (Failure ''delete failed''))
   \<and> broadcasts
        (fst (deleteCommand
                (calmEnv\<lparr>getTreeView := Returns \<lparr>selection = [jobNode ''A'' ''1'']\<rparr>,
                          delete := (\<lambda>n. Returns (Rejected (Failure ''delete failed'')))\<rparr>)
                None)) = []
   \<and> calls (fst (deleteCommand calmEnv (Some (sessionNode ''zosmf1'')))) =
        [GetTreeView, Delete (sessionNode ''zosmf1'')]
   \<and> broadcasts (fst (deleteCommand calmEnv (Some (sessionNode ''zosmf1'')))) = []"
  by (simp add: deleteCommand_def example_defs comp_simps calls_def broadcasts_def)

text \<open>
  Claim C10, amended. Every invocation of \<^verbatim>\<open>deleteCommand\<close> in which the calls before the
  broadcast return normally (the tree view is read, the deletion of each selected job is
  fulfilled, the notification returns, and a job passed while nothing is selected has its
  job record and its deletion is requested without a throw), whatever is selected and
  whether or not a job is passed, broadcasts \<^verbatim>\<open>zowe.jobs.refreshAllJobs\<close> exactly once, as
  its last call; when no job node is selected and no job is passed, the broadcast is all
  it does after reading the selection.
\<close>

theorem deleteCommand_always_broadcasts_once:
  "getTreeView E = Returns tv
   \<and> (\<forall>n \<in> set (selection tv). job n \<noteq> None \<longrightarrow> delete E n = Returns (Fulfilled ()))
   \<and> (\<forall>m. \<exists>p. showInformationMessage E m = Returns p)
   \<and> (\<forall>jn. arg = Some jn \<and> filter (\<lambda>jobNode. job jobNode \<noteq> None) (selection tv) = [] \<longrightarrow>
          job jn \<noteq> None \<and> (\<exists>q. delete E jn = Returns q)) \<longrightarrow>
   broadcasts (fst (deleteCommand E arg)) = [ExecuteCommand ''zowe.jobs.refreshAllJobs'']
   \<and> last (calls (fst (deleteCommand E arg))) = ExecuteCommand ''zowe.jobs.refreshAllJobs''
   \<and> (filter (\<lambda>jobNode. job jobNode \<noteq> None) (selection tv) = [] \<and> arg = None \<longrightarrow>
        calls (fst (deleteCommand E arg)) = [GetTreeView, ExecuteCommand ''zowe.jobs.refreshAllJobs''])"
proof (intro impI, elim conjE)
  assume tv: "getTreeView E = Returns tv"
    and del: "\<forall>n \<in> set (selection tv). job n \<noteq> None \<longrightarrow> delete E n = Returns (Fulfilled ())"
    and msg: "\<forall>m. \<exists>p. showInformationMessage E m = Returns p"
    and one: "\<forall>jn. arg = Some jn \<and> filter (\<lambda>jobNode. job jobNode \<noteq> None) (selection tv) = [] \<longrightarrow>
          job jn \<noteq> None \<and> (\<exists>q. delete E jn = Returns q)"
  define ns where "ns = filter (\<lambda>jobNode. job jobNode \<noteq> None) (selection tv)"
  have shape: "\<exists>pre post. fst (deleteCommand E arg) =
        GetTreeView # pre @ [ExecuteCommand ''zowe.jobs.refreshAllJobs''] @ post
        \<and> calls pre = pre \<and> broadcasts pre = [] \<and> calls post = []
        \<and> (ns = [] \<and> arg = None \<longrightarrow> pre = [])"
  proof (cases "ns = []")
    case False
    have d: "\<forall>n \<in> set ns. delete E n = Returns (Fulfilled ())"
      using del by (simp add: ns_def)
    obtain p where p: "showInformationMessage E
                (localize E ''deleteMulti.job'' ''The following jobs were deleted:'' @
                   arrayToString (rev (map (\<lambda>n. deletedName (the (job n))) ns))) = Returns p"
      using msg by blast
    obtain post where post: "fst (deleteCommand E arg) =
           GetTreeView # map Delete ns @
             [ShowInformationMessage
                (localize E ''deleteMulti.job'' ''The following jobs were deleted:'' @
                   arrayToString (rev (map (\<lambda>n. deletedName (the (job n))) ns))),
              ExecuteCommand ''zowe.jobs.refreshAllJobs''] @ post" "calls post = []"
      using deleteCommand_selected [OF tv ns_def [symmetric] False d p] by blast
    let ?pre = "map Delete ns @
             [ShowInformationMessage
                (localize E ''deleteMulti.job'' ''The following jobs were deleted:'' @
                   arrayToString (rev (map (\<lambda>n. deletedName (the (job n))) ns)))]"
    have "fst (deleteCommand E arg) =
        GetTreeView # ?pre @ [ExecuteCommand ''zowe.jobs.refreshAllJobs''] @ post"
      using post(1) by simp
    moreover have "calls ?pre = ?pre"
      using calls_Delete [of ns] by (simp add: calls_def)
    moreover have "broadcasts ?pre = []"
      using broadcasts_Delete [of ns] by (simp add: broadcasts_def)
    ultimately show ?thesis
      using post(2) False by blast
  next
    case True
    show ?thesis
    proof (cases arg)
      case None
      obtain post where "fst (deleteCommand E None) =
           [GetTreeView, ExecuteCommand ''zowe.jobs.refreshAllJobs''] @ post" "calls post = []"
        using deleteCommand_nothing [OF tv] True ns_def by metis
      then have "fst (deleteCommand E arg) =
          GetTreeView # [] @ [ExecuteCommand ''zowe.jobs.refreshAllJobs''] @ post
          \<and> calls [] = [] \<and> broadcasts [] = [] \<and> calls post = []"
        using None by (simp add: calls_def broadcasts_def)
      then show ?thesis by blast
    next
      case (Some jn)
      have e: "filter (\<lambda>jobNode. job jobNode \<noteq> None) (selection tv) = []"
        using True by (simp add: ns_def)
      obtain j q where j: "job jn = Some j" "delete E jn = Returns q"
        using one Some e by blast
      obtain p where p: "showInformationMessage E
                (localize E ''deleteCommand.job'' ''Job '' @ jobname j @ ''('' @ jobid j @ '')'' @
                   localize E ''deleteCommand.delete'' '' deleted'') = Returns p"
        using msg by blast
      obtain post where post: "fst (deleteCommand E (Some jn)) =
           [GetTreeView, Delete jn,
            ShowInformationMessage
              (localize E ''deleteCommand.job'' ''Job '' @ jobname j @ ''('' @ jobid j @ '')'' @
                 localize E ''deleteCommand.delete'' '' deleted''),
            ExecuteCommand ''zowe.jobs.refreshAllJobs''] @ post" "calls post = []"
        using deleteCommand_single [OF tv e j p] by blast
      let ?pre = "[Delete jn,
            ShowInformationMessage
              (localize E ''deleteCommand.job'' ''Job '' @ jobname j @ ''('' @ jobid j @ '')'' @
                 localize E ''deleteCommand.delete'' '' deleted'')]"
      have "fst (deleteCommand E arg) =
          GetTreeView # ?pre @ [ExecuteCommand ''zowe.jobs.refreshAllJobs''] @ post
          \<and> calls ?pre = ?pre \<and> broadcasts ?pre = [] \<and> calls post = []"
        using post Some by (simp add: calls_def broadcasts_def)
      then show ?thesis using Some by blast
    qed
  qed
  then obtain pre post where t: "fst (deleteCommand E arg) =
        GetTreeView # pre @ [ExecuteCommand ''zowe.jobs.refreshAllJobs''] @ post"
    and pre: "calls pre = pre" "broadcasts pre = []" and post: "calls post = []"
    and none: "ns = [] \<and> arg = None \<longrightarrow> pre = []"
    by blast
  have bp: "broadcasts post = []"
    using post by (rule broadcasts_no_calls)
  have c: "calls (fst (deleteCommand E arg)) =
      GetTreeView # pre @ [ExecuteCommand ''zowe.jobs.refreshAllJobs'']"
    using pre(1) post unfolding t by (simp add: calls_def)
  have b: "broadcasts (fst (deleteCommand E arg)) = [ExecuteCommand ''zowe.jobs.refreshAllJobs'']"
    using pre(2) bp unfolding t by (simp add: broadcasts_def)
  have l: "last (calls (fst (deleteCommand E arg))) = ExecuteCommand ''zowe.jobs.refreshAllJobs''"
    unfolding c by simp
  have n: "filter (\<lambda>jobNode. job jobNode \<noteq> None) (selection tv) = [] \<and> arg = None \<longrightarrow>
        calls (fst (deleteCommand E arg)) = [GetTreeView, ExecuteCommand ''zowe.jobs.refreshAllJobs'']"
    using none c by (auto simp add: ns_def)
  show "broadcasts (fst (deleteCommand E arg)) = [ExecuteCommand ''zowe.jobs.refreshAllJobs'']
   \<and> last (calls (fst (deleteCommand E arg))) = ExecuteCommand ''zowe.jobs.refreshAllJobs''
   \<and> (filter (\<lambda>jobNode. job jobNode \<noteq> None) (selection tv) = [] \<and> arg = None \<longrightarrow>
        calls (fst (deleteCommand E arg)) = [GetTreeView, ExecuteCommand ''zowe.jobs.refreshAllJobs''])"
    using b l n by blast
qed

theorem deleteCommand_always_broadcasts_once_witness:
  "calls (fst (deleteCommand calmEnv None)) = [GetTreeView, ExecuteCommand ''zowe.jobs.refreshAllJobs'']
   \<and> broadcasts (fst (deleteCommand calmEnv None)) = [ExecuteCommand ''zowe.jobs.refreshAllJobs'']
   \<and> broadcasts
        (fst (deleteCommand
                (calmEnv\<lparr>getTreeView :=
                   Returns \<lparr>selection = [sessionNode ''zosmf1'', jobNode ''A'' ''1'', jobNode ''B'' ''2'']\<rparr>\<rparr>)
                (Some (jobNode ''C'' ''3'')))) = [ExecuteCommand ''zowe.jobs.refreshAllJobs'']
   \<and> last (calls
        (fst (deleteCommand
                (calmEnv\<lparr>getTreeView :=
                   Returns \<lparr>selection = [sessionNode ''zosmf1'', jobNode ''A'' ''1'', jobNode ''B'' ''2'']\<rparr>\<rparr>)
                (Some (jobNode ''C'' ''3''))))) = ExecuteCommand ''zowe.jobs.refreshAllJobs''
   \<and> broadcasts (fst (deleteCommand calmEnv (Some (jobNode ''C'' ''3'')))) =
        [ExecuteCommand ''zowe.jobs.refreshAllJobs'']
   \<and> last (calls (fst (deleteCommand calmEnv (Some (jobNode ''C'' ''3''))))) =
        ExecuteCommand ''zowe.jobs.refreshAllJobs''"
proof -
  let ?sel = "[sessionNode ''zosmf1'', jobNode ''A'' ''1'', jobNode ''B'' ''2'']"
  let ?E = "calmEnv\<lparr>getTreeView := Returns \<lparr>selection = ?sel\<rparr>\<rparr>"
  have h0: "getTreeView calmEnv = Returns \<lparr>selection = []\<rparr>
   \<and> (\<forall>n \<in> set (selection \<lparr>selection = []\<rparr>). job n \<noteq> None \<longrightarrow> delete calmEnv n = Returns (Fulfilled ()))
   \<and> (\<forall>m. \<exists>p. showInformationMessage calmEnv m = Returns p)
   \<and> (\<forall>jn. None = Some jn \<and> filter (\<lambda>jobNode. job jobNode \<noteq> None) (selection \<lparr>selection = []\<rparr>) = [] \<longrightarrow>
          job jn \<noteq> None \<and> (\<exists>q. delete calmEnv jn = Returns q))"
    by (simp add: calmEnv_def)
  have e0: "filter (\<lambda>jobNode. job jobNode \<noteq> None) (selection \<lparr>selection = []\<rparr>) = [] \<and> None = (None :: node option)"
    by simp
  have h1: "getTreeView ?E = Returns \<lparr>selection = ?sel\<rparr>
   \<and> (\<forall>n \<in> set (selection \<lparr>selection = ?sel\<rparr>). job n \<noteq> None \<longrightarrow> delete ?E n = Returns (Fulfilled ()))
   \<and> (\<forall>m. \<exists>p. showInformationMessage ?E m = Returns p)
   \<and> (\<forall>jn. Some (jobNode ''C'' ''3'') = Some jn
             \<and> filter (\<lambda>jobNode. job jobNode \<noteq> None) (selection \<lparr>selection = ?sel\<rparr>) = [] \<longrightarrow>
          job jn \<noteq> None \<and> (\<exists>q. delete ?E jn = Returns q))"
    by (simp add: calmEnv_def jobNode_def sessionNode_def)
  have h2: "getTreeView calmEnv = Returns \<lparr>selection = []\<rparr>
   \<and> (\<forall>n \<in> set (selection \<lparr>selection = []\<rparr>). job n \<noteq> None \<longrightarrow> delete calmEnv n = Returns (Fulfilled ()))
   \<and> (\<forall>m. \<exists>p. showInformationMessage calmEnv m = Returns p)
   \<and> (\<forall>jn. Some (jobNode ''C'' ''3'') = Some jn
             \<and> filter (\<lambda>jobNode. job jobNode \<noteq> None) (selection \<lparr>selection = []\<rparr>) = [] \<longrightarrow>
          job jn \<noteq> None \<and> (\<exists>q. delete calmEnv jn = Returns q))"
    by (simp add: calmEnv_def jobNode_def)
  note T0 = deleteCommand_always_broadcasts_once [rule_format, OF h0]
  note T1 = deleteCommand_always_broadcasts_once [rule_format, OF h1]
  note T2 = deleteCommand_always_broadcasts_once [rule_format, OF h2]
  show ?thesis
    using T0 [THEN conjunct2, THEN conjunct2, rule_format, OF e0] T0 [THEN conjunct1]
      T1 [THEN conjunct1] T1 [THEN conjunct2, THEN conjunct1]
      T2 [THEN conjunct1] T2 [THEN conjunct2, THEN conjunct1]
    by (intro conjI)
qed

subsection \<open>Focusing on a job\<close>










end
